theory Spec2Isabelle
  imports Complex_Main "HOL-Library.Word" "HOL-Library.Char_ord" "HOL-Library.List_Lexorder"
    "HOL-Library.Monad_Syntax"
begin

section \<open>Single-precision values\<close>

text \<open>
  The C++ type \<^verbatim>\<open>float\<close>, the binary32 format of IEEE 754: a finite value is the real
  number it stands for, beside the two infinities and NaN. Every arithmetic operation
  rounds its exact result to the nearest value of the format, a tie to the one with the
  even significand, and a result of \<open>2\<^sup>1\<^sup>2\<^sup>8\<close> or more in magnitude is an infinity. Each
  operation of the source is rounded by itself, to the format of its type (no fused
  multiplication and addition, no wider intermediate format). The two zeros are one
  value and so are all NaNs: the sign of a zero and the sign and payload of a NaN are not
  modelled.
\<close>

datatype fl = Finite real | PInf | NInf | NaN

text \<open>
  \<open>exponent_up b n a\<close> is the exponent of the first digit of \<open>a \<ge> 1\<close> in base \<open>b\<close>, and
  \<open>exponent_down b n a\<close> that of \<open>a < 1\<close>, both found in at most \<open>n\<close> steps.
\<close>

fun exponent_up :: "real \<Rightarrow> nat \<Rightarrow> real \<Rightarrow> int" where
  "exponent_up b 0 a = 0"
| "exponent_up b (Suc n) a = (if a < b then 0 else 1 + exponent_up b n (a / b))"

fun exponent_down :: "real \<Rightarrow> nat \<Rightarrow> real \<Rightarrow> int" where
  "exponent_down b 0 a = 0"
| "exponent_down b (Suc n) a = (if a \<ge> 1 then 0 else exponent_down b n (a * b) - 1)"

definition pow2 :: "int \<Rightarrow> real" where
  "pow2 e = (if e \<ge> 0 then 2 ^ nat e else 1 / 2 ^ nat (- e))"

text \<open>Rounding to the nearest integer, a tie to the even one.\<close>

definition round_half_even :: "real \<Rightarrow> int" where
  "round_half_even x =
     (let f = \<lfloor>x\<rfloor>; r = x - of_int f
      in if r < 1 / 2 then f else if r > 1 / 2 then f + 1 else if even f then f else f + 1)"

text \<open>
  Rounding a real to a binary format of \<open>p\<close> significant bits whose least normal value is
  \<open>2\<^bsup>emin\<^esup>\<close> and whose finite values are below \<open>2\<^bsup>emax\<^esup>\<close>. Below the least normal value
  the spacing of the values stays that of the least normal ones (the subnormal values).
\<close>

definition round_binary :: "nat \<Rightarrow> int \<Rightarrow> int \<Rightarrow> real \<Rightarrow> fl" where
  "round_binary p emin emax x =
     (let a = \<bar>x\<bar>
      in if a \<ge> pow2 emax then (if x < 0 then NInf else PInf)
         else
           let e = (if a < pow2 emin then emin
                    else if a \<ge> 1 then exponent_up 2 (nat emax) a
                    else exponent_down 2 (nat (- emin)) a);
               ulp = pow2 (e - (int p - 1));
               r = of_int (round_half_even (a / ulp)) * ulp
           in if r \<ge> pow2 emax then (if x < 0 then NInf else PInf)
              else Finite (if x < 0 then - r else r))"

text \<open>The formats \<^verbatim>\<open>float\<close> and \<^verbatim>\<open>double\<close>.\<close>

definition round32 :: "real \<Rightarrow> fl" where
  "round32 x = round_binary 24 (- 126) 128 x"

definition round64 :: "real \<Rightarrow> fl" where
  "round64 x = round_binary 53 (- 1022) 1024 x"

fun fneg :: "fl \<Rightarrow> fl" where
  "fneg (Finite a) = Finite (- a)"
| "fneg PInf = NInf"
| "fneg NInf = PInf"
| "fneg NaN = NaN"

fun fadd :: "fl \<Rightarrow> fl \<Rightarrow> fl" where
  "fadd (Finite a) (Finite b) = round32 (a + b)"
| "fadd NaN _ = NaN"
| "fadd _ NaN = NaN"
| "fadd PInf NInf = NaN"
| "fadd NInf PInf = NaN"
| "fadd PInf _ = PInf"
| "fadd _ PInf = PInf"
| "fadd NInf _ = NInf"
| "fadd _ NInf = NInf"

definition fsub :: "fl \<Rightarrow> fl \<Rightarrow> fl" where
  "fsub a b = fadd a (fneg b)"

text \<open>The sign of a value: \<open>1\<close>, \<open>0\<close> or \<open>-1\<close>; NaN has none.\<close>

fun fsign :: "fl \<Rightarrow> int option" where
  "fsign (Finite a) = Some (if a < 0 then - 1 else if a = 0 then 0 else 1)"
| "fsign PInf = Some 1"
| "fsign NInf = Some (- 1)"
| "fsign NaN = None"

definition signed_inf :: "int \<Rightarrow> fl" where
  "signed_inf s = (if s = 0 then NaN else if s < 0 then NInf else PInf)"

fun fmul :: "fl \<Rightarrow> fl \<Rightarrow> fl" where
  "fmul (Finite a) (Finite b) = round32 (a * b)"
| "fmul a b =
     (case (fsign a, fsign b) of
        (Some s, Some t) \<Rightarrow> signed_inf (s * t)
      | _ \<Rightarrow> NaN)"

text \<open>
  Division: a finite value over zero is an infinity of the dividend's sign, zero over
  zero and infinity over infinity are NaN.
\<close>

fun fdiv :: "fl \<Rightarrow> fl \<Rightarrow> fl" where
  "fdiv (Finite a) (Finite b) =
     (if b = 0 then (if a = 0 then NaN else if a < 0 then NInf else PInf)
      else round32 (a / b))"
| "fdiv NaN _ = NaN"
| "fdiv _ NaN = NaN"
| "fdiv (Finite a) _ = Finite 0"
| "fdiv PInf (Finite b) = (if b < 0 then NInf else PInf)"
| "fdiv NInf (Finite b) = (if b < 0 then PInf else NInf)"
| "fdiv PInf PInf = NaN"
| "fdiv PInf NInf = NaN"
| "fdiv NInf PInf = NaN"
| "fdiv NInf NInf = NaN"

fun fsqrt :: "fl \<Rightarrow> fl" where
  "fsqrt (Finite a) = (if a < 0 then NaN else round32 (sqrt a))"
| "fsqrt PInf = PInf"
| "fsqrt NInf = NaN"
| "fsqrt NaN = NaN"

fun fabs :: "fl \<Rightarrow> fl" where
  "fabs (Finite a) = Finite \<bar>a\<bar>"
| "fabs PInf = PInf"
| "fabs NInf = PInf"
| "fabs NaN = NaN"

text \<open>Comparisons: each is false as soon as one side is NaN.\<close>

fun flt :: "fl \<Rightarrow> fl \<Rightarrow> bool" where
  "flt (Finite a) (Finite b) = (a < b)"
| "flt NaN _ = False"
| "flt _ NaN = False"
| "flt _ NInf = False"
| "flt PInf _ = False"
| "flt (Finite a) PInf = True"
| "flt NInf (Finite b) = True"
| "flt NInf PInf = True"

definition fgt :: "fl \<Rightarrow> fl \<Rightarrow> bool" where
  "fgt a b = flt b a"

fun feq :: "fl \<Rightarrow> fl \<Rightarrow> bool" where
  "feq NaN _ = False"
| "feq _ NaN = False"
| "feq a b = (a = b)"

definition fle :: "fl \<Rightarrow> fl \<Rightarrow> bool" where
  "fle a b = (flt a b \<or> feq a b)"

definition fge :: "fl \<Rightarrow> fl \<Rightarrow> bool" where
  "fge a b = fle b a"

text \<open>\<^verbatim>\<open>std::max(a, b)\<close> is \<^verbatim>\<open>(a < b) ? b : a\<close>.\<close>

definition fmax :: "fl \<Rightarrow> fl \<Rightarrow> fl" where
  "fmax a b = (if flt a b then b else a)"

section \<open>The C and C++ library functions the code calls\<close>

text \<open>
  The functions of this section are not code of the repository: they model the parts of
  the standard library that the database and the analyzer call, in the C locale and in
  the time zone UTC (no daylight saving time).
\<close>

subsection \<open>Characters and decimal numbers\<close>

definition is_digit :: "char \<Rightarrow> bool" where
  "is_digit c = (CHR ''0'' \<le> c \<and> c \<le> CHR ''9'')"

text \<open>\<^verbatim>\<open>isspace\<close>: space, and the control characters 9 to 13.\<close>

definition is_space :: "char \<Rightarrow> bool" where
  "is_space c = (of_char c = (32::nat) \<or> (9 \<le> (of_char c :: nat) \<and> (of_char c :: nat) \<le> 13))"

text \<open>\<^verbatim>\<open>tolower\<close> in the C locale.\<close>

definition lower :: "char \<Rightarrow> char" where
  "lower c =
     (case map_of (zip ''ABCDEFGHIJKLMNOPQRSTUVWXYZ'' ''abcdefghijklmnopqrstuvwxyz'') c of
        None \<Rightarrow> c
      | Some l \<Rightarrow> l)"

definition digit_val :: "char \<Rightarrow> int" where
  "digit_val c = of_char c - 48"

definition dec_val :: "string \<Rightarrow> int" where
  "dec_val ds = foldl (\<lambda>a c. 10 * a + digit_val c) 0 ds"

definition digit_char :: "nat \<Rightarrow> char" where
  "digit_char n = ''0123456789'' ! n"

fun digits_of :: "nat \<Rightarrow> string" where
  "digits_of n = (if n < 10 then [digit_char n] else digits_of (n div 10) @ [digit_char (n mod 10)])"

declare digits_of.simps [simp del]

text \<open>An integer written by \<^verbatim>\<open>operator<<\<close>, and written in a field of width 2 filled with zeros.\<close>

definition show_int :: "int \<Rightarrow> string" where
  "show_int i = (if i < 0 then CHR ''-'' # digits_of (nat (- i)) else digits_of (nat i))"

definition pad2 :: "int \<Rightarrow> string" where
  "pad2 i = (let s = show_int i in if length s < 2 then replicate (2 - length s) CHR ''0'' @ s else s)"

subsection \<open>Broken-down time\<close>

text \<open>\<^verbatim>\<open>struct tm\<close>, without \<^verbatim>\<open>tm_isdst\<close>.\<close>

record tm =
  tm_sec :: int
  tm_min :: int
  tm_hour :: int
  tm_mday :: int
  tm_mon :: int
  tm_year :: int
  tm_wday :: int
  tm_yday :: int

text \<open>Days between 1970-01-01 and a date of the proleptic Gregorian calendar, and back.\<close>

definition days_from_civil :: "int \<Rightarrow> int \<Rightarrow> int \<Rightarrow> int" where
  "days_from_civil y m d =
     (let y' = (if m \<le> 2 then y - 1 else y);
          era = y' div 400;
          yoe = y' - era * 400;
          doy = (153 * (if m > 2 then m - 3 else m + 9) + 2) div 5 + d - 1;
          doe = yoe * 365 + yoe div 4 - yoe div 100 + doy
      in era * 146097 + doe - 719468)"

definition civil_from_days :: "int \<Rightarrow> int \<times> int \<times> int" where
  "civil_from_days z =
     (let z' = z + 719468;
          era = z' div 146097;
          doe = z' - era * 146097;
          yoe = (doe - doe div 1460 + doe div 36524 - doe div 146096) div 365;
          doy = doe - (365 * yoe + yoe div 4 - yoe div 100);
          mp = (5 * doy + 2) div 153;
          d = doy - (153 * mp + 2) div 5 + 1;
          m = (if mp < 10 then mp + 3 else mp - 9);
          y = yoe + era * 400
      in (if m \<le> 2 then y + 1 else y, m, d))"

text \<open>
  \<^verbatim>\<open>mktime\<close>: the seconds since the epoch of a broken-down time. A day of the month
  outside its month counts on into the neighbouring months (the day 0 is the last day of
  the month before). The callers use the result only.
\<close>

definition mktime :: "tm \<Rightarrow> int" where
  "mktime t =
     days_from_civil (tm_year t + 1900) (tm_mon t + 1) (tm_mday t) * 86400
       + tm_hour t * 3600 + tm_min t * 60 + tm_sec t"

text \<open>\<^verbatim>\<open>localtime\<close> of a \<^verbatim>\<open>time_t\<close>.\<close>

definition localtime :: "int \<Rightarrow> tm" where
  "localtime t =
     (let days = t div 86400; secs = t mod 86400;
          (y, m, d) = civil_from_days days
      in \<lparr>tm_sec = secs mod 60, tm_min = (secs div 60) mod 60, tm_hour = secs div 3600,
          tm_mday = d, tm_mon = m - 1, tm_year = y - 1900,
          tm_wday = (days + 4) mod 7, tm_yday = days - days_from_civil y 1 1\<rparr>)"

subsection \<open>\<^verbatim>\<open>std::get_time\<close>\<close>

text \<open>
  \<^verbatim>\<open>stream >> std::get_time(&tm, format)\<close> on a stream over a text, as libstdc++ has it
  since GCC 12. The result \<open>None\<close> is the stream with its \<^verbatim>\<open>failbit\<close> set, which is what
  the callers test.

  A numeric conversion reads up to \<open>len\<close> digits, at least one, and fails when the number
  is outside \<open>lo..hi\<close>.
\<close>

definition extract_num :: "nat \<Rightarrow> int \<Rightarrow> int \<Rightarrow> string \<Rightarrow> (int \<times> string) option" where
  "extract_num len lo hi s =
     (let ds = takeWhile is_digit (take len s); v = dec_val ds
      in if ds \<noteq> [] \<and> lo \<le> v \<and> v \<le> hi then Some (v, drop (length ds) s) else None)"

definition skip_space :: "string \<Rightarrow> string" where
  "skip_space s = dropWhile is_space s"

text \<open>\<^verbatim>\<open>std::tm tm = {}\<close>: every member is 0.\<close>

definition tm_zero :: tm where
  "tm_zero =
     \<lparr>tm_sec = 0, tm_min = 0, tm_hour = 0, tm_mday = 0, tm_mon = 0, tm_year = 0, tm_wday = 0,
      tm_yday = 0\<rparr>"

text \<open>
  One conversion, named by the character after \<^verbatim>\<open>%\<close>, on an input that is not at its
  end: the broken-down time with the member set, whether the member is one of the date,
  and the unread input. \<^verbatim>\<open>%d\<close> skips one white space before the digits. Only the
  conversions of the two formats of the database are modelled; any other fails here.
\<close>

definition do_get :: "char \<Rightarrow> string \<Rightarrow> tm \<Rightarrow> (tm \<times> bool \<times> string) option" where
  "do_get c s t =
     (if c = CHR ''Y''
      then map_option (\<lambda>(v, r). (t\<lparr>tm_year := v - 1900\<rparr>, True, r)) (extract_num 4 0 9999 s)
      else if c = CHR ''m''
      then map_option (\<lambda>(v, r). (t\<lparr>tm_mon := v - 1\<rparr>, True, r)) (extract_num 2 1 12 s)
      else if c = CHR ''d''
      then map_option (\<lambda>(v, r). (t\<lparr>tm_mday := v\<rparr>, True, r))
             (extract_num 2 1 31 (if s \<noteq> [] \<and> is_space (hd s) then tl s else s))
      else if c = CHR ''H''
      then map_option (\<lambda>(v, r). (t\<lparr>tm_hour := v\<rparr>, False, r)) (extract_num 2 0 23 s)
      else if c = CHR ''M''
      then map_option (\<lambda>(v, r). (t\<lparr>tm_min := v\<rparr>, False, r)) (extract_num 2 0 59 s)
      else if c = CHR ''S''
      then map_option (\<lambda>(v, r). (t\<lparr>tm_sec := v\<rparr>, False, r)) (extract_num 2 0 60 s)
      else None)"

text \<open>
  The loop of \<^verbatim>\<open>time_get::get\<close> over the format. While some of the format is left: an input
  at its end is a failure (\<^verbatim>\<open>eofbit | failbit\<close>); a conversion is carried out, and when it
  reads the last character of the input the loop ends with \<^verbatim>\<open>eofbit\<close> alone, which is no
  failure, whatever is left of the format; white space of the format skips the white space
  of the format and of the input; any other character has to stand in the input, in
  either case of a letter. What follows the text that the format has read is left unread.
\<close>

function get_loop :: "string \<Rightarrow> string \<Rightarrow> tm \<Rightarrow> bool \<Rightarrow> (tm \<times> bool) option" where
  "get_loop [] s t x = Some (t, x)"
| "get_loop (f # fs) [] t x = None"
| "get_loop (f # fs) (d # r) t x =
     (if f = CHR ''%''
      then (if fs = [] then None
            else (case do_get (hd fs) (d # r) t of
                    None \<Rightarrow> None
                  | Some (t', x', s') \<Rightarrow>
                      if s' = [] then Some (t', x \<or> x') else get_loop (tl fs) s' t' (x \<or> x')))
      else if is_space f then get_loop (dropWhile is_space fs) (skip_space (d # r)) t x
      else if lower d = lower f then get_loop fs r t x
      else None)"
  by pat_completeness auto

termination
proof (relation "measure (\<lambda>(fmt, s, t, x). length fmt)")
  show "wf (measure (\<lambda>(fmt, s, t, x). length fmt))"
    by simp
next
  fix f :: char and fs :: string and d :: char and r :: string and t :: tm and x :: bool
    and y :: "tm \<times> bool \<times> string" and t' :: tm and p :: "bool \<times> string" and x' :: bool
    and s' :: string
  assume "fs \<noteq> []"
  then show "((tl fs, s', t', x \<or> x'), f # fs, d # r, t, x) \<in> measure (\<lambda>(fmt, s, t, x). length fmt)"
    by simp
next
  fix f :: char and fs :: string and d :: char and r :: string and t :: tm and x :: bool
  show "((dropWhile is_space fs, skip_space (d # r), t, x), f # fs, d # r, t, x)
      \<in> measure (\<lambda>(fmt, s, t, x). length fmt)"
    by (simp add: length_dropWhile_le le_imp_less_Suc)
next
  fix f :: char and fs :: string and d :: char and r :: string and t :: tm and x :: bool
  show "((fs, r, t, x), f # fs, d # r, t, x) \<in> measure (\<lambda>(fmt, s, t, x). length fmt)"
    by simp
qed

text \<open>
  At the end the members \<^verbatim>\<open>tm_wday\<close> and \<^verbatim>\<open>tm_yday\<close> are computed from the year, the month
  and the day as they then are, when a conversion has set one of these (other libraries
  leave the two members as they were).
\<close>

definition finalize_state :: "tm \<times> bool \<Rightarrow> tm" where
  "finalize_state tx =
     (let t = fst tx; days = days_from_civil (tm_year t + 1900) (tm_mon t + 1) (tm_mday t)
      in if snd tx
         then t\<lparr>tm_wday := (days + 4) mod 7,
                tm_yday := days - days_from_civil (tm_year t + 1900) 1 1\<rparr>
         else t)"

text \<open>The stream skips the white space before the text, and fails when nothing follows it.\<close>

definition get_time :: "string \<Rightarrow> string \<Rightarrow> tm option" where
  "get_time format s =
     (if skip_space s = [] then None
      else map_option finalize_state (get_loop format (skip_space s) tm_zero False))"

text \<open>The two formats of the database: \<^verbatim>\<open>"%Y-%m-%d"\<close> and \<^verbatim>\<open>"%Y-%m-%d %H:%M:%S"\<close>.\<close>

definition get_time_date :: "string \<Rightarrow> tm option" where
  "get_time_date s = get_time ''%Y-%m-%d'' s"

definition get_time_datetime :: "string \<Rightarrow> tm option" where
  "get_time_datetime s = get_time ''%Y-%m-%d %H:%M:%S'' s"

text \<open>
  The broken-down time that a text with the six numbers is read to: the members of a
  text that ends sooner keep the value 0 where the text has none.
\<close>

definition tm_of_fields :: "int \<Rightarrow> int \<Rightarrow> int \<Rightarrow> int \<Rightarrow> int \<Rightarrow> int \<Rightarrow> tm" where
  "tm_of_fields y m d hh mm ss =
     \<lparr>tm_sec = ss, tm_min = mm, tm_hour = hh, tm_mday = d, tm_mon = m - 1, tm_year = y - 1900,
      tm_wday = (days_from_civil y m d + 4) mod 7,
      tm_yday = days_from_civil y m d - days_from_civil y 1 1\<rparr>"

subsection \<open>\<^verbatim>\<open>std::put_time\<close>\<close>

definition put_Y :: "tm \<Rightarrow> string" where
  "put_Y t = show_int (tm_year t + 1900)"

definition put_Ym :: "tm \<Rightarrow> string" where
  "put_Ym t = put_Y t @ ''-'' @ pad2 (tm_mon t + 1)"

definition put_Ymd :: "tm \<Rightarrow> string" where
  "put_Ymd t = put_Ym t @ ''-'' @ pad2 (tm_mday t)"

text \<open>\<^verbatim>\<open>%A\<close> and \<^verbatim>\<open>%B\<close>: the names of the weekday and of the month, \<^verbatim>\<open>?\<close> outside the range.\<close>

definition put_A :: "tm \<Rightarrow> string" where
  "put_A t =
     (if 0 \<le> tm_wday t \<and> tm_wday t < 7
      then [''Sunday'', ''Monday'', ''Tuesday'', ''Wednesday'', ''Thursday'', ''Friday'',
            ''Saturday''] ! nat (tm_wday t)
      else ''?'')"

definition put_B :: "tm \<Rightarrow> string" where
  "put_B t =
     (if 0 \<le> tm_mon t \<and> tm_mon t < 12
      then [''January'', ''February'', ''March'', ''April'', ''May'', ''June'', ''July'',
            ''August'', ''September'', ''October'', ''November'', ''December''] ! nat (tm_mon t)
      else ''?'')"

subsection \<open>\<^verbatim>\<open>std::map\<close> with string keys\<close>

text \<open>
  A \<^verbatim>\<open>std::map<std::string, V>\<close> is the list of its pairs in the order of the keys, which
  is the order of iteration. \<open>map_modify d f k m\<close> is \<^verbatim>\<open>m[k] = f(m[k])\<close>, where
  \<^verbatim>\<open>m[k]\<close> inserts the value \<open>d\<close> for a key that is new.
\<close>

fun map_modify :: "'v \<Rightarrow> ('v \<Rightarrow> 'v) \<Rightarrow> string \<Rightarrow> (string \<times> 'v) list \<Rightarrow> (string \<times> 'v) list" where
  "map_modify d f k [] = [(k, f d)]"
| "map_modify d f k ((k', v) # m) =
     (if k = k' then (k', f v) # m
      else if k < k' then (k, f d) # (k', v) # m
      else (k', v) # map_modify d f k m)"

text \<open>\<^verbatim>\<open>m[k] += w\<close> on a map of floats, and \<^verbatim>\<open>m[k]++\<close> on a map of \<^verbatim>\<open>int\<close>.\<close>

definition map_add_weight :: "string \<Rightarrow> fl \<Rightarrow> (string \<times> fl) list \<Rightarrow> (string \<times> fl) list" where
  "map_add_weight k w m = map_modify (Finite 0) (\<lambda>v. fadd v w) k m"

definition map_increment :: "string \<Rightarrow> (string \<times> 32 word) list \<Rightarrow> (string \<times> 32 word) list" where
  "map_increment k m = map_modify 0 (\<lambda>v. v + 1) k m"

text \<open>\<^verbatim>\<open>std::sort\<close> with a comparison: an insertion sort that keeps the order of equal elements
  (the order in which \<^verbatim>\<open>std::sort\<close> leaves them is unspecified).\<close>

fun insert_by :: "('a \<Rightarrow> 'a \<Rightarrow> bool) \<Rightarrow> 'a \<Rightarrow> 'a list \<Rightarrow> 'a list" where
  "insert_by lt x [] = [x]"
| "insert_by lt x (y # ys) = (if lt y x then y # insert_by lt x ys else x # y # ys)"

definition sort_by :: "('a \<Rightarrow> 'a \<Rightarrow> bool) \<Rightarrow> 'a list \<Rightarrow> 'a list" where
  "sort_by lt xs = foldr (insert_by lt) xs []"

section \<open>The waste database\<close>

text \<open>\<^verbatim>\<open>enum class TimePeriod\<close> and \<^verbatim>\<open>enum class MealPeriod\<close> of waste_database.h.\<close>

datatype TimePeriod = DAY | WEEK | MONTH | YEAR | ALL_TIME

datatype MealPeriod = BREAKFAST | LUNCH | DINNER | SNACK | UNKNOWN

record WasteEntry =
  foodType :: string
  weight :: fl
  timestamp :: string
  confidence :: fl
  mealPeriod :: string
  imageFilename :: string


text \<open>\<^verbatim>\<open>Detection::FoodItem\<close> of food_detector.h; the rectangle is x, y, width, height.\<close>

record FoodItem =
  className :: string
  item_confidence :: fl
  boundingBox :: "int \<times> int \<times> int \<times> int"
  estimatedWeight :: fl
  isWaste :: bool
  item_timestamp :: string

text \<open>\<^verbatim>\<open>struct WasteStatistics\<close>; \<^verbatim>\<open>int totalItems\<close> is a 32-bit integer.\<close>

record WasteStatistics =
  totalWeight :: fl
  totalItems :: "32 word"
  weightByType :: "(string \<times> fl) list"
  countByType :: "(string \<times> 32 word) list"
  topWastedFoods :: "string list"
  weightByDay :: "(string \<times> fl) list"
  weightByMeal :: "(string \<times> fl) list"
  weightByMonth :: "(string \<times> fl) list"
  dailyTrend :: "fl list"
  weeklyTrend :: "fl list"
  monthlyTrend :: "fl list"
  wasteSavedTotal :: fl
  wasteSavedPercentage :: fl

text \<open>The constructor \<^verbatim>\<open>WasteStatistics()\<close>.\<close>

definition WasteStatistics_new :: WasteStatistics where
  "WasteStatistics_new =
     \<lparr>totalWeight = Finite 0, totalItems = 0, weightByType = [], countByType = [],
      topWastedFoods = [], weightByDay = [], weightByMeal = [], weightByMonth = [],
      dailyTrend = [], weeklyTrend = [], monthlyTrend = [],
      wasteSavedTotal = Finite 0, wasteSavedPercentage = Finite 0\<rparr>"

record TimeRange =
  startHour :: int
  startMinute :: int
  endHour :: int
  endMinute :: int

text \<open>
  The members of \<^verbatim>\<open>class WasteDatabase\<close>. \<open>m_databaseMutex\<close> is true while the mutex is
  locked. \<open>m_mealTimeRanges\<close> lists the \<^verbatim>\<open>std::map\<close> in the order of its keys. No code of
  the repository registers a callback, so a callback is a number and \<open>notified\<close> logs
  the callbacks that were called, in order.
\<close>

record WasteDatabase =
  m_databasePath :: string
  m_entries :: "WasteEntry list"
  m_statistics :: WasteStatistics
  m_statisticsDirty :: bool
  m_currentMealPeriod :: MealPeriod
  m_mealTimeRanges :: "(MealPeriod \<times> TimeRange) list"
  m_databaseMutex :: bool
  m_changeCallbacks :: "nat list"
  notified :: "nat list"

text \<open>
  The model follows one thread that calls the functions one after the other, so the mutex
  is locked only by a caller further up. \<^verbatim>\<open>std::mutex\<close> is not recursive: a thread that
  locks a mutex it already owns never comes back from the call (the C++ standard leaves
  the behaviour undefined; the usual implementations block forever). \<open>Deadlock\<close> is that
  outcome; the state beside it is the state in which the thread is stuck.
\<close>

datatype error = Deadlock

definition lock :: "WasteDatabase \<Rightarrow> error + WasteDatabase" where
  "lock db = (if m_databaseMutex db then Inl Deadlock else Inr (db\<lparr>m_databaseMutex := True\<rparr>))"

definition unlock :: "WasteDatabase \<Rightarrow> WasteDatabase" where
  "unlock db = db\<lparr>m_databaseMutex := False\<rparr>"

subsection \<open>Meal periods\<close>

fun determineMealPeriod :: "(MealPeriod \<times> TimeRange) list \<Rightarrow> int \<Rightarrow> int \<Rightarrow> MealPeriod" where
  "determineMealPeriod [] hour minute = SNACK"
| "determineMealPeriod ((period, rng) # rest) hour minute =
     (let startMinutes = startHour rng * 60 + startMinute rng;
          endMinutes = endHour rng * 60 + endMinute rng;
          currentMinutes = hour * 60 + minute
      in if currentMinutes \<ge> startMinutes \<and> currentMinutes \<le> endMinutes then period
         else determineMealPeriod rest hour minute)"

text \<open>The overload that takes a timestamp.\<close>

definition determineMealPeriod_timestamp :: "(MealPeriod \<times> TimeRange) list \<Rightarrow> string \<Rightarrow> MealPeriod" where
  "determineMealPeriod_timestamp ranges ts =
     (case get_time_datetime ts of
        None \<Rightarrow> UNKNOWN
      | Some t \<Rightarrow> determineMealPeriod ranges (tm_hour t) (tm_min t))"

definition standardMealTimeRanges :: "(MealPeriod \<times> TimeRange) list" where
  "standardMealTimeRanges =
     [(BREAKFAST, \<lparr>startHour = 6, startMinute = 0, endHour = 10, endMinute = 30\<rparr>),
      (LUNCH, \<lparr>startHour = 11, startMinute = 0, endHour = 14, endMinute = 30\<rparr>),
      (DINNER, \<lparr>startHour = 17, startMinute = 0, endHour = 21, endMinute = 0\<rparr>),
      (SNACK, \<lparr>startHour = 21, startMinute = 0, endHour = 23, endMinute = 59\<rparr>)]"

text \<open>\<open>now\<close> is the reading of the system clock, in seconds since the epoch.\<close>

definition initializeMealPeriods :: "int \<Rightarrow> WasteDatabase \<Rightarrow> WasteDatabase" where
  "initializeMealPeriods now db =
     (let db1 = db\<lparr>m_mealTimeRanges := standardMealTimeRanges\<rparr>;
          localTime = localtime now
      in db1\<lparr>m_currentMealPeriod :=
                determineMealPeriod (m_mealTimeRanges db1) (tm_hour localTime) (tm_min localTime)\<rparr>)"

definition setMealPeriod :: "MealPeriod \<Rightarrow> WasteDatabase \<Rightarrow> WasteDatabase" where
  "setMealPeriod period db = db\<lparr>m_currentMealPeriod := period\<rparr>"

definition getMealPeriodString :: "WasteDatabase \<Rightarrow> string" where
  "getMealPeriodString db =
     (case m_currentMealPeriod db of
        BREAKFAST \<Rightarrow> ''Breakfast''
      | LUNCH \<Rightarrow> ''Lunch''
      | DINNER \<Rightarrow> ''Dinner''
      | SNACK \<Rightarrow> ''Snack''
      | UNKNOWN \<Rightarrow> ''Unknown'')"

subsection \<open>Appending\<close>

definition notifyDatabaseChanged :: "WasteDatabase \<Rightarrow> WasteDatabase" where
  "notifyDatabaseChanged db = db\<lparr>notified := notified db @ m_changeCallbacks db\<rparr>"

definition addEntry :: "WasteEntry \<Rightarrow> WasteDatabase \<Rightarrow> error + WasteDatabase" where
  "addEntry entry db =
     (case lock db of
        Inl e \<Rightarrow> Inl e
      | Inr db1 \<Rightarrow>
          Inr (notifyDatabaseChanged
                 (unlock (db1\<lparr>m_entries := m_entries db1 @ [entry], m_statisticsDirty := True\<rparr>))))"

text \<open>The entry that \<^verbatim>\<open>addDetection\<close> builds; \<^verbatim>\<open>WasteEntry()\<close> leaves the file name empty.\<close>

definition entry_of_item :: "WasteDatabase \<Rightarrow> FoodItem \<Rightarrow> WasteEntry" where
  "entry_of_item db item =
     \<lparr>foodType = className item, weight = estimatedWeight item, timestamp = item_timestamp item,
      confidence = item_confidence item, mealPeriod = getMealPeriodString db, imageFilename = []\<rparr>"

definition addDetection :: "FoodItem \<Rightarrow> WasteDatabase \<Rightarrow> error + WasteDatabase" where
  "addDetection item db = addEntry (entry_of_item db item) db"

subsection \<open>Queries\<close>

definition end_of_day :: "tm \<Rightarrow> tm" where
  "end_of_day t = t\<lparr>tm_hour := 23, tm_min := 59, tm_sec := 59\<rparr>"

definition filterEntriesByDate :: "WasteEntry list \<Rightarrow> string \<Rightarrow> string \<Rightarrow> WasteEntry list" where
  "filterEntriesByDate es startDate endDate =
     (let startTm = (if startDate = [] then None else get_time_date startDate);
          endTm = (if endDate = [] then None else map_option end_of_day (get_time_date endDate))
      in filter
           (\<lambda>entry.
              case get_time_datetime (timestamp entry) of
                None \<Rightarrow> False
              | Some entryTm \<Rightarrow>
                  (case startTm of None \<Rightarrow> True | Some st \<Rightarrow> mktime entryTm \<ge> mktime st) \<and>
                  (case endTm of None \<Rightarrow> True | Some en \<Rightarrow> mktime entryTm \<le> mktime en))
           es)"

definition getEntries :: "string \<Rightarrow> string \<Rightarrow> string \<Rightarrow> WasteDatabase \<Rightarrow> error + WasteEntry list" where
  "getEntries ft startDate endDate db =
     (case lock db of
        Inl e \<Rightarrow> Inl e
      | Inr db1 \<Rightarrow>
          (let filteredEntries =
                 (if ft = [] then m_entries db1 else filter (\<lambda>entry. foodType entry = ft) (m_entries db1))
           in Inr (if startDate = [] \<and> endDate = [] then filteredEntries
                   else filterEntriesByDate filteredEntries startDate endDate)))"

subsection \<open>Statistics\<close>

text \<open>
  The accumulators of the first loop of \<^verbatim>\<open>calculateStatistics\<close>. The maps
  \<^verbatim>\<open>weeklyWeight\<close> and \<^verbatim>\<open>monthlyWeight\<close> of the source are filled and never read, and
  are left out.
\<close>

record Aggregates =
  acc_totalWeight :: fl
  acc_weightByType :: "(string \<times> fl) list"
  acc_countByType :: "(string \<times> 32 word) list"
  acc_weightByMeal :: "(string \<times> fl) list"
  acc_weightByDay :: "(string \<times> fl) list"
  acc_weightByMonth :: "(string \<times> fl) list"
  acc_dailyWeight :: "(string \<times> fl) list"

definition Aggregates_new :: Aggregates where
  "Aggregates_new =
     \<lparr>acc_totalWeight = Finite 0, acc_weightByType = [], acc_countByType = [],
      acc_weightByMeal = [], acc_weightByDay = [], acc_weightByMonth = [], acc_dailyWeight = []\<rparr>"

definition accumulate :: "Aggregates \<Rightarrow> WasteEntry \<Rightarrow> Aggregates" where
  "accumulate a entry =
     (let a1 = a\<lparr>acc_totalWeight := fadd (acc_totalWeight a) (weight entry),
                  acc_weightByType := map_add_weight (foodType entry) (weight entry) (acc_weightByType a),
                  acc_countByType := map_increment (foodType entry) (acc_countByType a),
                  acc_weightByMeal := map_add_weight (mealPeriod entry) (weight entry) (acc_weightByMeal a)\<rparr>
      in case get_time_datetime (timestamp entry) of
           None \<Rightarrow> a1
         | Some t \<Rightarrow>
             a1\<lparr>acc_weightByDay := map_add_weight (put_A t) (weight entry) (acc_weightByDay a1),
                acc_weightByMonth := map_add_weight (put_B t) (weight entry) (acc_weightByMonth a1),
                acc_dailyWeight := map_add_weight (put_Ymd t) (weight entry) (acc_dailyWeight a1)\<rparr>)"

text \<open>The five heaviest food types: sorted by weight, heaviest first.\<close>

definition top_foods :: "(string \<times> fl) list \<Rightarrow> string list" where
  "top_foods foodWeights = map fst (take 5 (sort_by (\<lambda>a b. fgt (snd a) (snd b)) foodWeights))"

text \<open>The dates of the last 30 days, oldest first.\<close>

definition last_dates :: "int \<Rightarrow> int \<Rightarrow> string list" where
  "last_dates now n = map (\<lambda>i. put_Ymd (localtime (now - 86400 * i))) (rev [0..n - 1])"

definition map_get_or_zero :: "(string \<times> fl) list \<Rightarrow> string \<Rightarrow> fl" where
  "map_get_or_zero m k = (case map_of m k of None \<Rightarrow> Finite 0 | Some v \<Rightarrow> v)"

text \<open>The second loop: the weights of the last seven days and of the seven days before.\<close>

definition week_step :: "int \<Rightarrow> fl \<times> fl \<Rightarrow> WasteEntry \<Rightarrow> fl \<times> fl" where
  "week_step now acc entry =
     (case get_time_datetime (timestamp entry) of
        None \<Rightarrow> acc
      | Some t \<Rightarrow>
          (let entryTime = mktime t; oneWeekAgoTime = now - 604800; twoWeeksAgoTime = now - 1209600
           in if entryTime \<ge> oneWeekAgoTime then (fadd (fst acc) (weight entry), snd acc)
              else if entryTime \<ge> twoWeeksAgoTime then (fst acc, fadd (snd acc) (weight entry))
              else acc))"

definition calculateStatistics :: "int \<Rightarrow> WasteEntry list \<Rightarrow> WasteStatistics" where
  "calculateStatistics now es =
     (if es = [] then WasteStatistics_new
      else
        let a = foldl accumulate Aggregates_new es;
            (lastWeekWeight, previousWeekWeight) = foldl (week_step now) (Finite 0, Finite 0) es;
            saved = fsub previousWeekWeight lastWeekWeight;
            reduced = (fgt previousWeekWeight (Finite 0) \<and> fgt saved (Finite 0))
        in \<lparr>totalWeight = acc_totalWeight a,
            totalItems = of_nat (length es),
            weightByType = acc_weightByType a,
            countByType = acc_countByType a,
            topWastedFoods = top_foods (acc_weightByType a),
            weightByDay = acc_weightByDay a,
            weightByMeal = acc_weightByMeal a,
            weightByMonth = acc_weightByMonth a,
            dailyTrend = map (map_get_or_zero (acc_dailyWeight a)) (last_dates now 30),
            weeklyTrend = [],
            monthlyTrend = [],
            wasteSavedTotal = (if reduced then saved else Finite 0),
            wasteSavedPercentage =
              (if reduced then fmul (fdiv saved previousWeekWeight) (Finite 100) else Finite 0)\<rparr>)"

text \<open>The statistics of the entries of a period, as the second half of \<^verbatim>\<open>getStatistics\<close> computes them.\<close>

definition periodStatistics :: "WasteEntry list \<Rightarrow> WasteStatistics" where
  "periodStatistics periodEntries =
     (let byType = foldl (\<lambda>m entry. map_add_weight (foodType entry) (weight entry) m) [] periodEntries
      in WasteStatistics_new
           \<lparr>totalItems := of_nat (length periodEntries),
            totalWeight := foldl (\<lambda>w entry. fadd w (weight entry)) (Finite 0) periodEntries,
            weightByType := byType,
            countByType := foldl (\<lambda>m entry. map_increment (foodType entry) m) [] periodEntries,
            weightByMeal := foldl (\<lambda>m entry. map_add_weight (mealPeriod entry) (weight entry) m) [] periodEntries,
            topWastedFoods := top_foods byType\<rparr>)"

text \<open>The start of a period: so many hours before now.\<close>

definition period_hours :: "TimePeriod \<Rightarrow> int" where
  "period_hours period =
     (case period of DAY \<Rightarrow> 24 | WEEK \<Rightarrow> 24 * 7 | MONTH \<Rightarrow> 24 * 30 | YEAR \<Rightarrow> 24 * 365 | ALL_TIME \<Rightarrow> 0)"

text \<open>
  \<^verbatim>\<open>getStatistics\<close> returns its result and the database it leaves. For a period other than
  \<^verbatim>\<open>ALL_TIME\<close> it calls \<^verbatim>\<open>getEntries\<close> while it holds the mutex.
\<close>

definition getStatistics :: "TimePeriod \<Rightarrow> int \<Rightarrow> WasteDatabase \<Rightarrow> (error + WasteStatistics) \<times> WasteDatabase" where
  "getStatistics period now db =
     (case lock db of
        Inl e \<Rightarrow> (Inl e, db)
      | Inr db1 \<Rightarrow>
          (let db2 = (if m_statisticsDirty db1 \<or> period \<noteq> ALL_TIME
                      then db1\<lparr>m_statistics := calculateStatistics now (m_entries db1),
                               m_statisticsDirty := False\<rparr>
                      else db1)
           in if period = ALL_TIME then (Inr (m_statistics db2), unlock db2)
              else
                (let startDateStr = put_Ymd (localtime (now - 3600 * period_hours period))
                 in case getEntries [] startDateStr [] db2 of
                      Inl e \<Rightarrow> (Inl e, db2)
                    | Inr periodEntries \<Rightarrow> (Inr (periodStatistics periodEntries), unlock db2))))"

subsection \<open>Text of numbers\<close>

text \<open>
  \<^verbatim>\<open>operator<<\<close> on a \<^verbatim>\<open>float\<close> with the stream's defaults is the conversion \<^verbatim>\<open>%g\<close> with
  six significant digits. \<open>decimal_exponent a\<close> is the exponent of the first digit of
  \<open>a > 0\<close>; 64 steps cover every exponent of a \<^verbatim>\<open>float\<close>. A NaN is written \<^verbatim>\<open>nan\<close> here; the
  library writes \<^verbatim>\<open>-nan\<close> for one whose sign bit is set, and \<^verbatim>\<open>-0\<close> for the negative zero,
  texts that \<^verbatim>\<open>std::stof\<close> reads back as a NaN and as a zero.
\<close>

definition decimal_exponent :: "real \<Rightarrow> int" where
  "decimal_exponent a = (if a \<ge> 1 then exponent_up 10 64 a else exponent_down 10 64 a)"

definition pow10 :: "int \<Rightarrow> real" where
  "pow10 e = (if e \<ge> 0 then 10 ^ nat e else 1 / 10 ^ nat (- e))"

definition strip_zeros :: "string \<Rightarrow> string" where
  "strip_zeros s = rev (dropWhile (\<lambda>c. c = CHR ''0'') (rev s))"

text \<open>The digits after the first one, without trailing zeros, behind a point when any is left.\<close>

definition fraction_part :: "string \<Rightarrow> string" where
  "fraction_part ds = (let f = strip_zeros ds in if f = [] then [] else CHR ''.'' # f)"

definition g6 :: "real \<Rightarrow> string" where
  "g6 a =
     (if a = 0 then ''0''
      else
        let e0 = decimal_exponent a;
            m0 = round_half_even (a * pow10 (5 - e0));
            (m, e) = (if m0 \<ge> 1000000 then (100000, e0 + 1) else (m0, e0));
            ds = digits_of (nat m)
        in if e < - 4 \<or> e \<ge> 6
           then take 1 ds @ fraction_part (drop 1 ds) @ ''e'' @ (if e < 0 then ''-'' else ''+'') @ pad2 \<bar>e\<bar>
           else if e \<ge> 0 then take (nat e + 1) ds @ fraction_part (drop (nat e + 1) ds)
           else ''0'' @ fraction_part (replicate (nat (- e - 1)) CHR ''0'' @ ds))"

definition float_out :: "fl \<Rightarrow> string" where
  "float_out x =
     (case x of
        Finite r \<Rightarrow> (if r < 0 then CHR ''-'' # g6 (- r) else g6 r)
      | PInf \<Rightarrow> ''inf''
      | NInf \<Rightarrow> ''-inf''
      | NaN \<Rightarrow> ''nan'')"

text \<open>
  \<^verbatim>\<open>std::stof\<close>, which calls \<^verbatim>\<open>strtof\<close>: white space, a sign, and then \<^verbatim>\<open>inf\<close>, \<^verbatim>\<open>nan\<close>, a
  hexadecimal number behind \<^verbatim>\<open>0x\<close> with an optional binary exponent behind \<^verbatim>\<open>p\<close>, or a
  decimal number with an optional exponent behind \<^verbatim>\<open>e\<close>; what follows is ignored. The
  number is rounded to the nearest \<^verbatim>\<open>float\<close>. \<open>None\<close> is an exception:
  \<^verbatim>\<open>std::invalid_argument\<close> for a text that starts with no number, \<^verbatim>\<open>std::out_of_range\<close>
  when \<^verbatim>\<open>strtof\<close> reports a range error, which it does for a number that rounds to an
  infinity and for a number other than 0 below the least normal value \<open>2\<^bsup>-126\<^esup>\<close> that is
  not a value of the format. The callers catch both alike.
\<close>

definition is_xdigit :: "char \<Rightarrow> bool" where
  "is_xdigit c = (is_digit c \<or> (CHR ''a'' \<le> lower c \<and> lower c \<le> CHR ''f''))"

definition xdigit_val :: "char \<Rightarrow> int" where
  "xdigit_val c = (if is_digit c then digit_val c else of_char (lower c) - 87)"

definition hex_val :: "string \<Rightarrow> int" where
  "hex_val ds = foldl (\<lambda>a c. 16 * a + xdigit_val c) 0 ds"

text \<open>The exponent behind the letter \<open>mark\<close>, 0 when there is none.\<close>

definition read_exponent :: "char \<Rightarrow> string \<Rightarrow> int" where
  "read_exponent mark s =
     (case s of
        [] \<Rightarrow> 0
      | c # r \<Rightarrow>
          if lower c = mark
          then (case r of
                  [] \<Rightarrow> 0
                | d # r' \<Rightarrow>
                    if d = CHR ''-'' then - dec_val (takeWhile is_digit r')
                    else if d = CHR ''+'' then dec_val (takeWhile is_digit r')
                    else dec_val (takeWhile is_digit r))
          else 0)"

text \<open>The number that a text starts with, in decimal and in hexadecimal notation.\<close>

definition decimal_number :: "string \<Rightarrow> real option" where
  "decimal_number s =
     (let ip = takeWhile is_digit s;
          r1 = drop (length ip) s;
          fp = (if take 1 r1 = ''.'' then takeWhile is_digit (drop 1 r1) else []);
          r2 = (if take 1 r1 = ''.'' then drop (Suc (length fp)) r1 else r1);
          mant = of_int (dec_val ip) + of_int (dec_val fp) / 10 ^ length fp
      in if ip = [] \<and> fp = [] then None else Some (mant * pow10 (read_exponent CHR ''e'' r2)))"

definition hex_number :: "string \<Rightarrow> real option" where
  "hex_number s =
     (let h = drop 2 s;
          ip = takeWhile is_xdigit h;
          r1 = drop (length ip) h;
          fp = (if take 1 r1 = ''.'' then takeWhile is_xdigit (drop 1 r1) else []);
          r2 = (if take 1 r1 = ''.'' then drop (Suc (length fp)) r1 else r1);
          mant = of_int (hex_val ip) + of_int (hex_val fp) / 16 ^ length fp
      in if map lower (take 2 s) \<noteq> ''0x'' \<or> (ip = [] \<and> fp = []) then None
         else Some (mant * pow2 (read_exponent CHR ''p'' r2)))"

definition stof :: "string \<Rightarrow> fl option" where
  "stof s =
     (let s1 = skip_space s;
          neg = (take 1 s1 = ''-'');
          s2 = (if take 1 s1 = ''-'' \<or> take 1 s1 = ''+'' then drop 1 s1 else s1)
      in if map lower (take 3 s2) = ''inf'' then Some (if neg then NInf else PInf)
         else if map lower (take 3 s2) = ''nan'' then Some NaN
         else
           case (case hex_number s2 of Some h \<Rightarrow> Some h | None \<Rightarrow> decimal_number s2) of
             None \<Rightarrow> None
           | Some m \<Rightarrow>
               (let x = (if neg then - m else m); v = round32 x
                in if v = PInf \<or> v = NInf then None
                   else if x \<noteq> 0 \<and> \<bar>x\<bar> < pow2 (- 126) \<and> v \<noteq> Finite x then None
                   else Some v))"

subsection \<open>The database file\<close>

text \<open>
  The file at \<open>m_databasePath\<close>: its text (\<open>None\<close> when there is no such file) and
  whether it can be opened for writing.
\<close>

record Disk =
  fileText :: "string option"
  canWrite :: bool

text \<open>The tokens that successive calls of \<^verbatim>\<open>std::getline\<close> with the delimiter \<open>d\<close> read from a text.\<close>

fun split_on :: "char \<Rightarrow> string \<Rightarrow> string list" where
  "split_on d [] = []"
| "split_on d (c # s) =
     (if c = d then [] # split_on d s
      else (case split_on d s of [] \<Rightarrow> [[c]] | t # ts \<Rightarrow> (c # t) # ts))"

definition header :: string where
  "header = ''FoodType,Weight,Timestamp,Confidence,MealPeriod,ImageFilename'' @ [CHR 0x0A]"

definition entry_text :: "WasteEntry \<Rightarrow> string" where
  "entry_text entry =
     foodType entry @ '','' @ float_out (weight entry) @ '','' @ timestamp entry @ '','' @
     float_out (confidence entry) @ '','' @ mealPeriod entry @ '','' @ imageFilename entry"

definition entry_line :: "WasteEntry \<Rightarrow> string" where
  "entry_line entry = entry_text entry @ [CHR 0x0A]"

definition saveToFile :: "WasteDatabase \<Rightarrow> Disk \<Rightarrow> (error + bool) \<times> WasteDatabase \<times> Disk" where
  "saveToFile db disk =
     (case lock db of
        Inl e \<Rightarrow> (Inl e, db, disk)
      | Inr db1 \<Rightarrow>
          if canWrite disk
          then (Inr True, unlock db1,
                disk\<lparr>fileText := Some (header @ concat (map entry_line (m_entries db1)))\<rparr>)
          else (Inr False, unlock db1, disk))"

text \<open>The constructor \<^verbatim>\<open>WasteEntry()\<close>.\<close>

definition WasteEntry_new :: WasteEntry where
  "WasteEntry_new =
     \<lparr>foodType = [], weight = Finite 0, timestamp = [], confidence = Finite 0, mealPeriod = [],
      imageFilename = []\<rparr>"

text \<open>The token number \<open>i\<close> of a line goes into its field; \<open>None\<close> when \<^verbatim>\<open>std::stof\<close> throws.\<close>

definition assign_field :: "WasteEntry option \<Rightarrow> nat \<times> string \<Rightarrow> WasteEntry option" where
  "assign_field eo it =
     (case eo of
        None \<Rightarrow> None
      | Some entry \<Rightarrow>
          (let i = fst it; token = snd it
           in if i = 0 then Some (entry\<lparr>foodType := token\<rparr>)
              else if i = 1 then map_option (\<lambda>w. entry\<lparr>weight := w\<rparr>) (stof token)
              else if i = 2 then Some (entry\<lparr>timestamp := token\<rparr>)
              else if i = 3 then map_option (\<lambda>c. entry\<lparr>confidence := c\<rparr>) (stof token)
              else if i = 4 then Some (entry\<lparr>mealPeriod := token\<rparr>)
              else Some (entry\<lparr>imageFilename := token\<rparr>)))"

definition parse_line :: "string \<Rightarrow> WasteEntry option" where
  "parse_line line = foldl assign_field (Some WasteEntry_new) (zip [0..<6] (split_on CHR '','' line))"

text \<open>
  The loop over the lines: the entries read so far, and whether the loop came to the end
  of the file (an exception of \<^verbatim>\<open>std::stof\<close> leaves it, with the entries read before).
\<close>

fun load_lines :: "string list \<Rightarrow> WasteEntry list \<Rightarrow> WasteEntry list \<times> bool" where
  "load_lines [] es = (es, True)"
| "load_lines (line # rest) es =
     (case parse_line line of
        None \<Rightarrow> (es, False)
      | Some entry \<Rightarrow> load_lines rest (es @ [entry]))"

definition loadFromFile :: "WasteDatabase \<Rightarrow> Disk \<Rightarrow> (error + bool) \<times> WasteDatabase" where
  "loadFromFile db disk =
     (case lock db of
        Inl e \<Rightarrow> (Inl e, db)
      | Inr db1 \<Rightarrow>
          (case fileText disk of
             None \<Rightarrow> (Inr False, unlock db1)
           | Some text \<Rightarrow>
               (let (es, finished) = load_lines (drop 1 (split_on (CHR 0x0A) text)) []
                in if finished
                   then (Inr True, unlock (db1\<lparr>m_entries := es, m_statisticsDirty := True\<rparr>))
                   else (Inr False, unlock (db1\<lparr>m_entries := es\<rparr>)))))"

text \<open>
  \<^verbatim>\<open>initialize\<close> (the directory of the file is not modelled) and the constructor, which
  drops the result of \<^verbatim>\<open>initialize\<close>.
\<close>

definition initialize :: "WasteDatabase \<Rightarrow> Disk \<Rightarrow> (error + bool) \<times> WasteDatabase" where
  "initialize db disk =
     (if fileText disk \<noteq> None then loadFromFile db disk
      else (case lock db of
              Inl e \<Rightarrow> (Inl e, db)
            | Inr db1 \<Rightarrow> (Inr True, unlock (db1\<lparr>m_entries := [], m_statisticsDirty := True\<rparr>))))"

definition WasteDatabase_new :: "string \<Rightarrow> int \<Rightarrow> Disk \<Rightarrow> WasteDatabase" where
  "WasteDatabase_new databasePath now disk =
     snd (initialize
            (initializeMealPeriods now
               \<lparr>m_databasePath = databasePath, m_entries = [], m_statistics = WasteStatistics_new,
                m_statisticsDirty = True, m_currentMealPeriod = UNKNOWN, m_mealTimeRanges = [],
                m_databaseMutex = False, m_changeCallbacks = [], notified = []\<rparr>)
            disk)"

section \<open>The statistics analyzer\<close>

record TrendData =
  timeLabels :: "string list"
  trendValues :: "fl list"
  changePercentage :: fl
  increasing :: bool

definition TrendData_new :: TrendData where
  "TrendData_new = \<lparr>timeLabels = [], trendValues = [], changePercentage = Finite 0, increasing = False\<rparr>"

record PredictionModel =
  intercept :: fl
  slope :: fl
  rSquared :: fl

definition PredictionModel_new :: PredictionModel where
  "PredictionModel_new = \<lparr>intercept = Finite 0, slope = Finite 0, rSquared = Finite 0\<rparr>"

text \<open>The members of \<^verbatim>\<open>class StatsAnalyzer\<close>; the database it points to is passed beside it.\<close>

record StatsAnalyzer =
  m_currentStats :: WasteStatistics
  m_dailyTrend :: TrendData
  m_foodTypeTrends :: "(string \<times> TrendData) list"
  m_mealPeriodTrends :: "(string \<times> TrendData) list"
  m_wastePredictionModel :: PredictionModel
  m_insights :: "string list"
  m_insightsDirty :: bool

text \<open>Conversions: \<^verbatim>\<open>static_cast<int>\<close> of a size, an \<^verbatim>\<open>int\<close> as a \<^verbatim>\<open>size_t\<close>, numbers as floats.\<close>

definition int_of_size :: "nat \<Rightarrow> int" where
  "int_of_size n = sint (of_nat n :: 32 word)"

definition size_t_of_int :: "int \<Rightarrow> nat" where
  "size_t_of_int i = nat (i mod 2 ^ 64)"

definition float_of_int :: "int \<Rightarrow> fl" where
  "float_of_int i = round32 (of_int i)"

definition float_of_size :: "nat \<Rightarrow> fl" where
  "float_of_size n = round32 (of_nat n)"

text \<open>\<^verbatim>\<open>std::iota\<close> from 0 over a vector of \<open>n\<close> floats.\<close>

definition iota :: "nat \<Rightarrow> fl list" where
  "iota n = map float_of_size [0..<n]"

subsection \<open>Linear regression\<close>

definition sums_step :: "fl \<Rightarrow> fl \<Rightarrow> fl \<times> fl \<times> fl \<Rightarrow> fl \<times> fl \<Rightarrow> fl \<times> fl \<times> fl" where
  "sums_step meanX meanY acc xy =
     (let xDiff = fsub (fst xy) meanX; yDiff = fsub (snd xy) meanY
      in (fadd (fst acc) (fmul xDiff yDiff),
          fadd (fst (snd acc)) (fmul xDiff xDiff),
          fadd (snd (snd acc)) (fmul yDiff yDiff)))"

definition residual_step :: "fl \<Rightarrow> fl \<Rightarrow> fl \<Rightarrow> fl \<times> fl \<Rightarrow> fl" where
  "residual_step icept slp ssr xy =
     (let predicted = fadd icept (fmul slp (fst xy)); residual = fsub (snd xy) predicted
      in fadd ssr (fmul residual residual))"

text \<open>
  The result is the triple of intercept, slope and \<open>R\<^sup>2\<close> that the source writes through
  references. The bound \<^verbatim>\<open>1e-9\<close> is a \<^verbatim>\<open>double\<close>, with which a sum is compared as the number
  it is.
\<close>

definition performLinearRegression :: "fl list \<Rightarrow> fl list \<Rightarrow> fl \<times> fl \<times> fl" where
  "performLinearRegression xValues yValues =
     (if length xValues \<noteq> length yValues \<or> length xValues < 2
      then (Finite 0, Finite 0, Finite 0)
      else
        let n = int_of_size (length xValues);
            meanX = fdiv (foldl fadd (Finite 0) xValues) (float_of_int n);
            meanY = fdiv (foldl fadd (Finite 0) yValues) (float_of_int n);
            points = take (nat n) (zip xValues yValues);
            (sumXY, sumXX, sumYY) = foldl (sums_step meanX meanY) (Finite 0, Finite 0, Finite 0) points
        in if flt sumXX (round64 (1 / 10 ^ 9)) then (meanY, Finite 0, Finite 0)
           else
             let slp = fdiv sumXY sumXX;
                 icept = fsub meanY (fmul slp meanX);
                 ssr = foldl (residual_step icept slp) (Finite 0) points;
                 sst = sumYY
             in (icept, slp,
                 if flt sst (round64 (1 / 10 ^ 9)) then Finite 0 else fsub (Finite 1) (fdiv ssr sst)))"

definition model_of :: "fl \<times> fl \<times> fl \<Rightarrow> PredictionModel" where
  "model_of r = \<lparr>intercept = fst r, slope = fst (snd r), rSquared = snd (snd r)\<rparr>"

definition createPredictionModel :: "fl list \<Rightarrow> PredictionModel" where
  "createPredictionModel data =
     (if length data < 2 then PredictionModel_new
      else model_of (performLinearRegression (iota (length data)) data))"

subsection \<open>Trends\<close>

text \<open>The regression is computed and its result is not used.\<close>

definition calculateTrendPercentage :: "fl list \<Rightarrow> fl" where
  "calculateTrendPercentage vs =
     (if length vs < 2 then Finite 0
      else
        let regression = performLinearRegression (iota (length vs)) vs;
            startValue = hd vs;
            endValue = last vs
        in if feq startValue (Finite 0) then Finite 0
           else fmul (fdiv (fsub endValue startValue) startValue) (Finite 100))"

text \<open>
  The end that the three trend functions share: \<^verbatim>\<open>std::sort\<close> of the pairs, the last \<open>days\<close>
  of them, the labels and the values, the change and its direction. \<open>days\<close> is an \<^verbatim>\<open>int\<close>.
\<close>

definition pair_less :: "string \<times> fl \<Rightarrow> string \<times> fl \<Rightarrow> bool" where
  "pair_less a b = (fst a < fst b \<or> (\<not> fst b < fst a \<and> flt (snd a) (snd b)))"

definition limit_days :: "int \<Rightarrow> 'a list \<Rightarrow> 'a list" where
  "limit_days days sortedData =
     (if length sortedData > size_t_of_int days then drop (length sortedData - nat days) sortedData
      else sortedData)"

definition trend_of :: "int \<Rightarrow> (string \<times> fl) list \<Rightarrow> TrendData" where
  "trend_of days m =
     (let sortedData = limit_days days (sort_by pair_less m);
          vs = map snd sortedData;
          change = calculateTrendPercentage vs
      in \<lparr>timeLabels = map fst sortedData, trendValues = vs, changePercentage = change,
          increasing = fgt change (Finite 0)\<rparr>)"

text \<open>\<^verbatim>\<open>m[k] = v\<close> on a \<^verbatim>\<open>std::map\<close>.\<close>

definition map_set :: "string \<Rightarrow> 'v \<Rightarrow> (string \<times> 'v) list \<Rightarrow> (string \<times> 'v) list" where
  "map_set k v m = map_modify v (\<lambda>_. v) k m"

text \<open>\<^verbatim>\<open>timestamp.substr(0, 10)\<close> is the first ten characters, or all of a shorter text.\<close>

definition analyzeFoodTypeTrend ::
    "string \<Rightarrow> int \<Rightarrow> StatsAnalyzer \<Rightarrow> WasteDatabase \<Rightarrow> (error + TrendData) \<times> StatsAnalyzer" where
  "analyzeFoodTypeTrend ft days a db =
     (case getEntries ft [] [] db of
        Inl e \<Rightarrow> (Inl e, a)
      | Inr es \<Rightarrow>
          if es = [] then (Inr TrendData_new, a)
          else
            let dailyWeights =
                  foldl (\<lambda>m entry. map_add_weight (take 10 (timestamp entry)) (weight entry) m) [] es;
                trend = trend_of days dailyWeights
            in (Inr trend, a\<lparr>m_foodTypeTrends := map_set ft trend (m_foodTypeTrends a)\<rparr>))"

definition analyzeMealPeriodTrend ::
    "string \<Rightarrow> int \<Rightarrow> StatsAnalyzer \<Rightarrow> WasteDatabase \<Rightarrow> (error + TrendData) \<times> StatsAnalyzer" where
  "analyzeMealPeriodTrend mp days a db =
     (case getEntries [] [] [] db of
        Inl e \<Rightarrow> (Inl e, a)
      | Inr es \<Rightarrow>
          if es = [] then (Inr TrendData_new, a)
          else
            let dailyWeights =
                  foldl (\<lambda>m entry.
                           if mealPeriod entry = mp
                           then map_add_weight (take 10 (timestamp entry)) (weight entry) m else m)
                    [] es;
                trend = trend_of days dailyWeights
            in (Inr trend, a\<lparr>m_mealPeriodTrends := map_set mp trend (m_mealPeriodTrends a)\<rparr>))"

text \<open>\<^verbatim>\<open>WasteDatabase::getWasteTrend\<close>: the weights by hour of today, or by date of the last days.\<close>

definition hour_label :: "int \<Rightarrow> string" where
  "hour_label hour = pad2 hour @ '':00''"

definition hourly_step :: "(string \<times> fl) list \<Rightarrow> WasteEntry \<Rightarrow> (string \<times> fl) list" where
  "hourly_step trend entry =
     (case get_time_datetime (timestamp entry) of
        None \<Rightarrow> trend
      | Some t \<Rightarrow> map_add_weight (hour_label (tm_hour t)) (weight entry) trend)"

definition daily_step :: "(string \<times> fl) list \<Rightarrow> WasteEntry \<Rightarrow> (string \<times> fl) list" where
  "daily_step trend entry =
     (case get_time_datetime (timestamp entry) of
        None \<Rightarrow> trend
      | Some t \<Rightarrow>
          if map_of trend (put_Ymd t) = None then trend
          else map_add_weight (put_Ymd t) (weight entry) trend)"

definition getWasteTrend ::
    "TimePeriod \<Rightarrow> int \<Rightarrow> WasteDatabase \<Rightarrow> (error + (string \<times> fl) list) \<times> WasteDatabase" where
  "getWasteTrend period now db =
     (case getStatistics period now db of
        (Inl e, db1) \<Rightarrow> (Inl e, db1)
      | (Inr stats, db1) \<Rightarrow>
          if period = DAY \<or> period = WEEK
          then
            (let trend0 = foldl (\<lambda>m hour. map_set (hour_label hour) (Finite 0) m) [] [0..23];
                 dateStr = put_Ymd (localtime now)
             in case getEntries [] dateStr dateStr db1 of
                  Inl e \<Rightarrow> (Inl e, db1)
                | Inr todayEntries \<Rightarrow> (Inr (foldl hourly_step trend0 todayEntries), db1))
          else
            (let days = (case period of MONTH \<Rightarrow> 30 | YEAR \<Rightarrow> 365 | _ \<Rightarrow> 7);
                 trend0 = foldl (\<lambda>m dateStr. map_set dateStr (Finite 0) m) [] (last_dates now days)
             in case getEntries [] [] [] db1 of
                  Inl e \<Rightarrow> (Inl e, db1)
                | Inr es \<Rightarrow> (Inr (foldl daily_step trend0 es), db1)))"

definition analyzeDailyTrend :: "int \<Rightarrow> int \<Rightarrow> WasteDatabase \<Rightarrow> (error + TrendData) \<times> WasteDatabase" where
  "analyzeDailyTrend days now db =
     (case getWasteTrend (if days \<le> 7 then WEEK else if days \<le> 30 then MONTH else YEAR) now db of
        (Inl e, db1) \<Rightarrow> (Inl e, db1)
      | (Inr wasteTrend, db1) \<Rightarrow> (Inr (trend_of days wasteTrend), db1))"

subsection \<open>Prediction\<close>

definition updateStats ::
    "int \<Rightarrow> StatsAnalyzer \<Rightarrow> WasteDatabase \<Rightarrow> (error + unit) \<times> StatsAnalyzer \<times> WasteDatabase" where
  "updateStats now a db =
     (case getStatistics ALL_TIME now db of
        (Inl e, db1) \<Rightarrow> (Inl e, a, db1)
      | (Inr stats, db1) \<Rightarrow>
          (let a1 = a\<lparr>m_currentStats := stats, m_insightsDirty := True\<rparr>
           in case analyzeDailyTrend 30 now db1 of
                (Inl e, db2) \<Rightarrow> (Inl e, a1, db2)
              | (Inr trend, db2) \<Rightarrow>
                  (let a2 = a1\<lparr>m_dailyTrend := trend\<rparr>
                   in (Inr (),
                       if trendValues trend = [] then a2
                       else a2\<lparr>m_wastePredictionModel :=
                                 model_of (performLinearRegression
                                             (iota (length (trendValues trend))) (trendValues trend))\<rparr>,
                       db2))))"

text \<open>The constructor of the analyzer sets the members and calls \<^verbatim>\<open>updateStats\<close>.\<close>

definition StatsAnalyzer_new :: "int \<Rightarrow> WasteDatabase \<Rightarrow> (error + unit) \<times> StatsAnalyzer \<times> WasteDatabase" where
  "StatsAnalyzer_new now db =
     updateStats now
       \<lparr>m_currentStats = WasteStatistics_new, m_dailyTrend = TrendData_new, m_foodTypeTrends = [],
        m_mealPeriodTrends = [], m_wastePredictionModel = PredictionModel_new, m_insights = [],
        m_insightsDirty = True\<rparr>
       db"

text \<open>
  \<^verbatim>\<open>m_dailyTrend.values.size() - 1\<close> is computed in \<^verbatim>\<open>size_t\<close>: for an empty series it is
  \<open>2\<^sup>6\<^sup>4 - 1\<close>, which the conversion to \<^verbatim>\<open>float\<close> rounds to \<open>2\<^sup>6\<^sup>4\<close>. The bound \<^verbatim>\<open>0.1f\<close> is the
  \<^verbatim>\<open>float\<close> nearest to 0.1.
\<close>

definition predictFutureWaste ::
    "int \<Rightarrow> int \<Rightarrow> StatsAnalyzer \<Rightarrow> WasteDatabase \<Rightarrow> (error + fl) \<times> StatsAnalyzer \<times> WasteDatabase" where
  "predictFutureWaste daysInFuture now a db =
     (if daysInFuture < 0 then (Inr (Finite 0), a, db)
      else
        case (if flt (fabs (rSquared (m_wastePredictionModel a))) (round32 (1 / 10))
              then updateStats now a db else (Inr (), a, db)) of
          (Inl e, a1, db1) \<Rightarrow> (Inl e, a1, db1)
        | (Inr u, a1, db1) \<Rightarrow>
            (let currentDay =
                   float_of_size ((length (trendValues (m_dailyTrend a1)) + (2 ^ 64 - 1)) mod 2 ^ 64);
                 futureDay = fadd currentDay (float_of_int daysInFuture);
                 predictedWaste =
                   fadd (intercept (m_wastePredictionModel a1))
                     (fmul (slope (m_wastePredictionModel a1)) futureDay)
             in (Inr (fmax (Finite 0) predictedWaste), a1, db1)))"

subsection \<open>Outliers\<close>

definition outlier_mean :: "(string \<times> fl) list \<Rightarrow> fl" where
  "outlier_mean data =
     fdiv (foldl fadd (Finite 0) (map snd data)) (float_of_size (length (map snd data)))"

definition outlier_stdDev :: "(string \<times> fl) list \<Rightarrow> fl" where
  "outlier_stdDev data =
     (let mean = outlier_mean data;
          varianceSum =
            foldl (\<lambda>s v. let diff = fsub v mean in fadd s (fmul diff diff)) (Finite 0) (map snd data)
      in fsqrt (fdiv varianceSum (float_of_size (length (map snd data)))))"

text \<open>The z-score of the second loop.\<close>

definition zScore :: "(string \<times> fl) list \<Rightarrow> fl \<Rightarrow> fl" where
  "zScore data v = fdiv (fabs (fsub v (outlier_mean data))) (outlier_stdDev data)"

definition identifyOutliers :: "(string \<times> fl) list \<Rightarrow> fl \<Rightarrow> (string \<times> fl) list" where
  "identifyOutliers data threshold =
     (if data = [] then []
      else foldl (\<lambda>outliers kv.
                    if fgt (zScore data (snd kv)) threshold then map_set (fst kv) (snd kv) outliers
                    else outliers)
             [] data)"

section \<open>Example values\<close>

text \<open>
  The database that the constructor builds on 2024-03-11 at 08:00:00 (1710144000 seconds
  after the epoch) when there is no database file.
\<close>

definition fresh_database :: WasteDatabase where
  "fresh_database =
     \<lparr>m_databasePath = ''data/waste_data.csv'', m_entries = [], m_statistics = WasteStatistics_new,
      m_statisticsDirty = True, m_currentMealPeriod = BREAKFAST,
      m_mealTimeRanges = standardMealTimeRanges, m_databaseMutex = False,
      m_changeCallbacks = [], notified = []\<rparr>"

definition no_file :: Disk where
  "no_file = \<lparr>fileText = None, canWrite = True\<rparr>"

definition negative_entry :: WasteEntry where
  "negative_entry =
     \<lparr>foodType = ''apple'', weight = Finite (- 1), timestamp = ''2024-03-11 08:15:00'',
      confidence = round32 (9 / 10), mealPeriod = ''Breakfast'', imageFilename = []\<rparr>"

definition apple_entry :: WasteEntry where
  "apple_entry =
     \<lparr>foodType = ''apple'', weight = Finite 10, timestamp = ''2024-03-11 08:15:00'',
      confidence = round32 (9 / 10), mealPeriod = ''Breakfast'', imageFilename = []\<rparr>"

text \<open>The database after the append of a first entry and a request for the statistics of all time.\<close>

definition served_database :: WasteDatabase where
  "served_database =
     fresh_database
       \<lparr>m_entries := [apple_entry], m_statistics := calculateStatistics 1710144000 [apple_entry],
        m_statisticsDirty := False\<rparr>"

definition dinner_item :: FoodItem where
  "dinner_item =
     \<lparr>className = ''rice'', item_confidence = round32 (9 / 10), boundingBox = (0, 0, 100, 100),
      estimatedWeight = Finite 50, isWaste = True, item_timestamp = ''2024-03-11 19:30:00''\<rparr>"

text \<open>An entry whose timestamp is written with slashes, which \<^verbatim>\<open>std::get_time\<close> does not read.\<close>

definition slash_entry :: WasteEntry where
  "slash_entry =
     \<lparr>foodType = ''apple'', weight = Finite 10, timestamp = ''2024/03/10 12:00:00'',
      confidence = round32 (9 / 10), mealPeriod = ''Lunch'', imageFilename = []\<rparr>"

text \<open>An entry of the last second of 2024-03-10.\<close>

definition boundary_entry :: WasteEntry where
  "boundary_entry =
     \<lparr>foodType = ''bread'', weight = Finite 25, timestamp = ''2024-03-10 23:59:59'',
      confidence = round32 (9 / 10), mealPeriod = ''Snack'', imageFilename = []\<rparr>"

text \<open>An entry of the year before, and an entry of the first second of 2024-03-11.\<close>

definition old_entry :: WasteEntry where
  "old_entry =
     \<lparr>foodType = ''rice'', weight = Finite 40, timestamp = ''2023-06-01 12:00:00'',
      confidence = round32 (9 / 10), mealPeriod = ''Lunch'', imageFilename = []\<rparr>"

definition midnight_entry :: WasteEntry where
  "midnight_entry =
     \<lparr>foodType = ''bread'', weight = Finite 25, timestamp = ''2024-03-11 00:00:00'',
      confidence = round32 (9 / 10), mealPeriod = ''Snack'', imageFilename = []\<rparr>"

definition comma_entry :: WasteEntry where
  "comma_entry =
     \<lparr>foodType = ''mac,cheese'', weight = Finite 0, timestamp = ''2024-03-11 12:00:00'',
      confidence = Finite 0, mealPeriod = ''Lunch'', imageFilename = []\<rparr>"





text \<open>Three days with the weights 10, 20 and 30, and three weekdays of equal weight.\<close>

definition three_days :: "(string \<times> fl) list" where
  "three_days = [(''2024-03-09'', Finite 10), (''2024-03-10'', Finite 20), (''2024-03-11'', Finite 30)]"

definition equal_days :: "(string \<times> fl) list" where
  "equal_days = [(''Friday'', Finite 10), (''Monday'', Finite 10), (''Tuesday'', Finite 10)]"

text \<open>An analyzer whose daily series is 100, 50, 0, with the model fitted to that series.\<close>

definition falling_analyzer :: StatsAnalyzer where
  "falling_analyzer =
     \<lparr>m_currentStats = WasteStatistics_new,
      m_dailyTrend =
        \<lparr>timeLabels = [''2024-03-09'', ''2024-03-10'', ''2024-03-11''],
         trendValues = [Finite 100, Finite 50, Finite 0], changePercentage = Finite (- 100),
         increasing = False\<rparr>,
      m_foodTypeTrends = [], m_mealPeriodTrends = [],
      m_wastePredictionModel = createPredictionModel [Finite 100, Finite 50, Finite 0],
      m_insights = [], m_insightsDirty = True\<rparr>"

text \<open>An analyzer whose daily series is 5, 5, 5, with the model fitted to that series.\<close>

definition flat_analyzer :: StatsAnalyzer where
  "flat_analyzer =
     \<lparr>m_currentStats = WasteStatistics_new,
      m_dailyTrend =
        \<lparr>timeLabels = [''2024-03-09'', ''2024-03-10'', ''2024-03-11''],
         trendValues = [Finite 5, Finite 5, Finite 5], changePercentage = Finite 0,
         increasing = False\<rparr>,
      m_foodTypeTrends = [], m_mealPeriodTrends = [],
      m_wastePredictionModel = createPredictionModel [Finite 5, Finite 5, Finite 5],
      m_insights = [], m_insightsDirty = True\<rparr>"

definition fresh_analyzer :: StatsAnalyzer where
  "fresh_analyzer =
     \<lparr>m_currentStats = WasteStatistics_new, m_dailyTrend = TrendData_new, m_foodTypeTrends = [],
      m_mealPeriodTrends = [], m_wastePredictionModel = PredictionModel_new, m_insights = [],
      m_insightsDirty = True\<rparr>"

text \<open>The total weight of a ledger, as the loops of the statistics add it up.\<close>

definition sum_weights :: "WasteEntry list \<Rightarrow> fl" where
  "sum_weights es = foldl (\<lambda>w entry. fadd w (weight entry)) (Finite 0) es"

text \<open>
  The cached statistics agree with the ledger when the dirty flag is clear: the state of
  the cache after every sequence of appends and statistics requests.
\<close>

definition cache_valid :: "WasteDatabase \<Rightarrow> bool" where
  "cache_valid db =
     (if m_statisticsDirty db then True
      else totalWeight (m_statistics db) = sum_weights (m_entries db) \<and>
           totalItems (m_statistics db) = of_nat (length (m_entries db)))"

text \<open>
  A text without the delimiters of the file, and an entry that the file can hold: its
  texts have no delimiter and its numbers are read back from their six digits.
\<close>

definition plain_text :: "string \<Rightarrow> bool" where
  "plain_text s = (CHR '','' \<notin> set s \<and> CHR 0x0A \<notin> set s)"

definition storable :: "WasteEntry \<Rightarrow> bool" where
  "storable entry =
     (plain_text (foodType entry) \<and> plain_text (timestamp entry) \<and> plain_text (mealPeriod entry) \<and>
      plain_text (imageFilename entry) \<and>
      stof (float_out (weight entry)) = Some (weight entry) \<and>
      stof (float_out (confidence entry)) = Some (confidence entry))"

text \<open>Whether a time of day lies in a range of the meal table.\<close>

definition in_time_range :: "TimeRange \<Rightarrow> int \<Rightarrow> int \<Rightarrow> bool" where
  "in_time_range rng hour minute =
     (hour * 60 + minute \<ge> startHour rng * 60 + startMinute rng \<and>
      hour * 60 + minute \<le> endHour rng * 60 + endMinute rng)"

section \<open>Properties\<close>

subsection \<open>Rounding\<close>

text \<open>The exponent that the two searches find.\<close>

lemma exponent_up_eq:
  "2 ^ k \<le> a \<Longrightarrow> a < 2 ^ Suc k \<Longrightarrow> k \<le> n \<Longrightarrow> exponent_up 2 n a = int k"
proof (induction n arbitrary: k a)
  case 0
  then show ?case by simp
next
  case (Suc n)
  show ?case
  proof (cases k)
    case 0
    with Suc.prems show ?thesis by simp
  next
    case (Suc j)
    have one: "(1::real) \<le> 2 ^ j"
      by simp
    from Suc Suc.prems have range: "2 ^ j \<le> a / 2" "a / 2 < 2 ^ Suc j" "j \<le> n"
      by (simp_all add: field_simps)
    from one range(1) have "\<not> a < 2"
      by linarith
    with Suc.IH [of j "a / 2"] range Suc show ?thesis
      by simp
  qed
qed

lemma exponent_down_one: "1 \<le> a \<Longrightarrow> exponent_down b n a = 0"
  by (cases n) simp_all

lemma exponent_down_eq:
  "1 / 2 ^ Suc k \<le> a \<Longrightarrow> a < 1 / 2 ^ k \<Longrightarrow> Suc k \<le> n \<Longrightarrow> exponent_down 2 n a = - int (Suc k)"
proof (induction n arbitrary: k a)
  case 0
  then show ?case by simp
next
  case (Suc n)
  have small: "\<not> 1 \<le> a"
  proof
    assume "1 \<le> a"
    moreover have "1 / 2 ^ k \<le> (1::real)" by simp
    ultimately show False using Suc.prems(2) by linarith
  qed
  show ?case
  proof (cases k)
    case 0
    with Suc.prems have "1 \<le> a * 2" by simp
    then have "exponent_down 2 n (a * 2) = 0" by (rule exponent_down_one)
    with small 0 show ?thesis by simp
  next
    case (Suc j)
    with Suc.prems have "1 / 2 ^ Suc j \<le> a * 2" "a * 2 < 1 / 2 ^ j" "Suc j \<le> n"
      by (simp_all add: field_simps)
    with Suc.IH [of j "a * 2"] Suc small show ?thesis
      by simp
  qed
qed

lemma pow2_nat: "pow2 (int k) = 2 ^ k"
  by (simp add: pow2_def)

lemma pow2_neg_nat: "pow2 (- int k) = 1 / 2 ^ k"
  by (cases k) (simp_all add: pow2_def nat_add_distrib)

lemma pow2_powr: "pow2 e = 2 powr (of_int e)"
proof (cases "0 \<le> e")
  case True
  then have "real_of_int e = real (nat e)"
    by simp
  then have "2 powr (of_int e) = (2::real) ^ nat e"
    by (simp only: powr_realpow [of 2 "nat e"] zero_less_numeral)
  with True show ?thesis
    by (simp add: pow2_def)
next
  case False
  then have "real_of_int e = - real (nat (- e))"
    by simp
  then have "2 powr (of_int e) = 1 / (2::real) ^ nat (- e)"
    by (simp only: powr_minus_divide powr_realpow [of 2 "nat (- e)"] zero_less_numeral)
  with False show ?thesis
    by (simp add: pow2_def)
qed

lemma pow2_mono: "i \<le> j \<Longrightarrow> pow2 i \<le> pow2 j"
  by (simp add: pow2_powr)

lemma pow2_ge_one: "0 \<le> e \<Longrightarrow> 1 \<le> pow2 e"
  by (simp add: pow2_def)

lemma pow2_le_one: "e \<le> 0 \<Longrightarrow> pow2 e \<le> 1"
  using pow2_mono [of e 0] by (simp add: pow2_def)

text \<open>The rounding of a number in the range of the normal values, whose exponent is \<open>e\<close>.\<close>

lemma round_binary_exponent:
  assumes "pow2 e \<le> a" and "a < pow2 (e + 1)" and "emin \<le> e" and "e < emax"
    and "emin \<le> 0" and "0 \<le> emax"
  shows "(if a < pow2 emin then emin
          else if a \<ge> 1 then exponent_up 2 (nat emax) a
          else exponent_down 2 (nat (- emin)) a) = e"
proof -
  from assms(1,3) pow2_mono [of emin e] have low: "\<not> a < pow2 emin"
    by simp
  show ?thesis
  proof (cases "1 \<le> a")
    case True
    have "0 \<le> e"
    proof (rule ccontr)
      assume "\<not> 0 \<le> e"
      then have "pow2 (e + 1) \<le> 1"
        by (intro pow2_le_one) simp
      with True assms(2) show False
        by simp
    qed
    then obtain k where k: "e = int k"
      using nonneg_int_cases by blast
    have "e + 1 = int (Suc k)"
      by (simp add: k)
    with assms(1,2) have "2 ^ k \<le> a" "a < 2 ^ Suc k"
      by (simp_all only: k pow2_nat)
    moreover from assms(4) have "k \<le> nat emax"
      by (simp add: k)
    ultimately have "exponent_up 2 (nat emax) a = int k"
      by (rule exponent_up_eq)
    with low True k show ?thesis
      by simp
  next
    case False
    have "e < 0"
    proof (rule ccontr)
      assume "\<not> e < 0"
      then have "1 \<le> pow2 e"
        by (intro pow2_ge_one) simp
      with False assms(1) show False
        by simp
    qed
    then obtain k where k: "e = - int (Suc k)"
      using negD by blast
    have "e + 1 = - int k"
      by (simp add: k)
    with assms(1,2) have "1 / 2 ^ Suc k \<le> a" "a < 1 / 2 ^ k"
      by (simp_all only: k pow2_neg_nat)
    moreover from assms(3) have "Suc k \<le> nat (- emin)"
      by (simp add: k)
    ultimately have "exponent_down 2 (nat (- emin)) a = - int (Suc k)"
      by (rule exponent_down_eq)
    with low False k show ?thesis
      by simp
  qed
qed

lemma round_binary_normal:
  assumes "pow2 e \<le> \<bar>x\<bar>" and "\<bar>x\<bar> < pow2 (e + 1)" and "emin \<le> e" and "e < emax"
    and "emin \<le> 0" and "0 \<le> emax"
  shows "round_binary p emin emax x =
           (let r = of_int (round_half_even (\<bar>x\<bar> / pow2 (e - (int p - 1)))) * pow2 (e - (int p - 1))
            in if r \<ge> pow2 emax then (if x < 0 then NInf else PInf)
               else Finite (if x < 0 then - r else r))"
proof -
  from assms(2,4) pow2_mono [of "e + 1" emax] have "\<not> pow2 emax \<le> \<bar>x\<bar>"
    by simp
  then show ?thesis
    unfolding round_binary_def Let_def round_binary_exponent [OF assms] by simp
qed

lemma round32_normal:
  assumes "pow2 e \<le> \<bar>x\<bar>" and "\<bar>x\<bar> < pow2 (e + 1)" and "- 126 \<le> e" and "e < 128"
  shows "round32 x =
           (let r = of_int (round_half_even (\<bar>x\<bar> / pow2 (e - 23))) * pow2 (e - 23)
            in if r \<ge> pow2 128 then (if x < 0 then NInf else PInf)
               else Finite (if x < 0 then - r else r))"
  unfolding round32_def using round_binary_normal [OF assms, of 24] by simp

lemma round64_normal:
  assumes "pow2 e \<le> \<bar>x\<bar>" and "\<bar>x\<bar> < pow2 (e + 1)" and "- 1022 \<le> e" and "e < 1024"
  shows "round64 x =
           (let r = of_int (round_half_even (\<bar>x\<bar> / pow2 (e - 52))) * pow2 (e - 52)
            in if r \<ge> pow2 1024 then (if x < 0 then NInf else PInf)
               else Finite (if x < 0 then - r else r))"
  unfolding round64_def using round_binary_normal [OF assms, of 53] by simp

lemma round32_0 [simp]: "round32 0 = Finite 0"
  by (simp add: round32_def round_binary_def pow2_def round_half_even_def)

lemma round_half_even_of_int [simp]: "round_half_even (of_int m) = m"
  by (simp add: round_half_even_def)

lemma pow2_pos [simp]: "0 < pow2 e"
  by (simp add: pow2_def)

text \<open>A number of the format is rounded to itself.\<close>

lemma round32_exact:
  assumes "pow2 e \<le> \<bar>x\<bar>" and "\<bar>x\<bar> < pow2 (e + 1)" and "- 126 \<le> e" and "e < 128"
    and "\<bar>x\<bar> / pow2 (e - 23) = of_int m"
  shows "round32 x = Finite x"
proof -
  have "pow2 (e - 23) \<noteq> 0"
    by (simp add: pow2_def)
  then have "of_int m * pow2 (e - 23) = \<bar>x\<bar>"
    using assms(5) by (simp add: nonzero_divide_eq_eq)
  moreover have "\<bar>x\<bar> < pow2 128"
    using assms(2,4) pow2_mono [of "e + 1" 128] by simp
  ultimately show ?thesis
    unfolding round32_normal [OF assms(1-4)] assms(5) by (simp add: Let_def)
qed

lemma pow2_floor_log:
  assumes "0 < a"
  shows "pow2 \<lfloor>log 2 a\<rfloor> \<le> a" and "a < pow2 (\<lfloor>log 2 a\<rfloor> + 1)"
proof -
  have "of_int \<lfloor>log 2 a\<rfloor> \<le> log 2 a"
    by simp
  then have "2 powr (of_int \<lfloor>log 2 a\<rfloor>) \<le> 2 powr (log 2 a)"
    by (simp only: powr_le_cancel_iff)
  with assms show "pow2 \<lfloor>log 2 a\<rfloor> \<le> a"
    by (simp add: pow2_powr)
  have "log 2 a < of_int (\<lfloor>log 2 a\<rfloor> + 1)"
    by linarith
  then have "2 powr (log 2 a) < 2 powr (of_int (\<lfloor>log 2 a\<rfloor> + 1))"
    by (simp only: powr_less_cancel_iff)
  with assms show "a < pow2 (\<lfloor>log 2 a\<rfloor> + 1)"
    by (simp add: pow2_powr)
qed

text \<open>Every integer up to \<open>2\<^sup>2\<^sup>4\<close> in magnitude is a value of the format.\<close>

lemma round32_of_int:
  assumes "\<bar>i\<bar> \<le> 16777216"
  shows "round32 (of_int i) = Finite (of_int i)"
proof (cases "i = 0")
  case True
  then show ?thesis
    by simp
next
  case False
  define a :: real where "a = \<bar>of_int i\<bar>"
  define e where "e = \<lfloor>log 2 a\<rfloor>"
  from False have one: "1 \<le> a"
    by (simp add: a_def)
  then have pos: "0 < a"
    by simp
  from assms have top: "a \<le> 16777216"
    unfolding a_def by linarith
  have low: "pow2 e \<le> a" and high: "a < pow2 (e + 1)"
    unfolding e_def using pow2_floor_log [OF pos] by simp_all
  have "0 \<le> log 2 a"
    using one by simp
  then have nonneg: "0 \<le> e"
    by (simp add: e_def)
  have "e < 25"
  proof (rule ccontr)
    assume "\<not> e < 25"
    then have "pow2 25 \<le> pow2 e"
      by (intro pow2_mono) simp
    with low top show False
      by (simp add: pow2_def)
  qed
  then consider "e \<le> 23" | "e = 24"
    by linarith
  then obtain m :: int where "a / pow2 (e - 23) = of_int m"
  proof cases
    case 1
    then have "pow2 (e - 23) = 1 / 2 ^ nat (23 - e)"
      by (cases "e = 23") (simp_all add: pow2_def)
    then have "a / pow2 (e - 23) = of_int (\<bar>i\<bar> * 2 ^ nat (23 - e))"
      by (simp add: a_def)
    with that show ?thesis
      by blast
  next
    case 2
    with low top have "a = 16777216"
      by (simp add: pow2_def)
    with 2 have "a / pow2 (e - 23) = of_int 8388608"
      by (simp add: pow2_def)
    with that show ?thesis
      by blast
  qed
  with low high nonneg \<open>e < 25\<close> show ?thesis
    unfolding a_def by (intro round32_exact [of e _ m]) simp_all
qed

lemma round32_numeral [simp]:
  "(numeral n :: int) \<le> 16777216 \<Longrightarrow> round32 (numeral n) = Finite (numeral n)"
  using round32_of_int [of "numeral n"] by simp

lemma round32_neg_numeral [simp]:
  "(numeral n :: int) \<le> 16777216 \<Longrightarrow> round32 (- numeral n) = Finite (- numeral n)"
  using round32_of_int [of "- numeral n"] by simp

lemma round32_1 [simp]: "round32 1 = Finite 1"
  using round32_of_int [of 1] by simp

lemma round32_neg_1 [simp]: "round32 (- 1) = Finite (- 1)"
  using round32_of_int [of "- 1"] by simp

lemma round32_09: "round32 (9 / 10) = Finite (7549747 / 8388608)"
  using round32_normal [of "- 1" "9 / 10"]
  by (simp add: pow2_def round_half_even_def)

lemma round32_01: "round32 (1 / 10) = Finite (13421773 / 134217728)"
  using round32_normal [of "- 4" "1 / 10"]
  by (simp add: pow2_def round_half_even_def)

text \<open>The \<^verbatim>\<open>double\<close> nearest to \<open>10\<^sup>-\<^sup>9\<close>.\<close>

lemma round64_1e9: "round64 (1 / 1000000000) = Finite (4835703278458517 / 2 ^ 82)"
  using round64_normal [of "- 30" "1 / 1000000000"]
  by (simp add: pow2_def round_half_even_def)


subsection \<open>The text of a number\<close>

lemma set_digits_of: "set (digits_of n) \<subseteq> set ''0123456789''"
proof (induction n rule: digits_of.induct)
  case (1 n)
  have digit: "digit_char k \<in> set ''0123456789''" if "k < 10" for k
    unfolding digit_char_def using that by (intro nth_mem) simp
  show ?case
  proof (cases "n < 10")
    case True
    then show ?thesis
      using digit [of n] by (subst digits_of.simps) simp
  next
    case False
    with 1 have "set (digits_of (n div 10)) \<subseteq> set ''0123456789''"
      by simp
    moreover have "digit_char (n mod 10) \<in> set ''0123456789''"
      by (rule digit) simp
    ultimately show ?thesis
      using False by (subst digits_of.simps) simp
  qed
qed

lemma plain_digits_of: "plain_text (digits_of n)"
  using set_digits_of [of n] by (auto simp: plain_text_def)

lemma plain_text_append [simp]: "plain_text (s @ t) = (plain_text s \<and> plain_text t)"
  by (auto simp: plain_text_def)

lemma plain_text_Cons [simp]: "plain_text (c # s) = (c \<noteq> CHR '','' \<and> c \<noteq> CHR 0x0A \<and> plain_text s)"
  by (auto simp: plain_text_def)

lemma plain_text_Nil [simp]: "plain_text []"
  by (simp add: plain_text_def)

lemma plain_text_subset: "plain_text s \<Longrightarrow> set t \<subseteq> set s \<Longrightarrow> plain_text t"
  by (auto simp: plain_text_def)

lemma plain_text_take [simp]: "plain_text s \<Longrightarrow> plain_text (take n s)"
  by (erule plain_text_subset) (rule set_take_subset)

lemma plain_text_drop [simp]: "plain_text s \<Longrightarrow> plain_text (drop n s)"
  by (erule plain_text_subset) (rule set_drop_subset)

lemma plain_text_replicate [simp]: "c \<noteq> CHR '','' \<Longrightarrow> c \<noteq> CHR 0x0A \<Longrightarrow> plain_text (replicate n c)"
  by (auto simp: plain_text_def)

lemma plain_strip_zeros [simp]: "plain_text s \<Longrightarrow> plain_text (strip_zeros s)"
  by (erule plain_text_subset) (auto simp: strip_zeros_def dest: set_dropWhileD)

lemma plain_fraction_part [simp]: "plain_text s \<Longrightarrow> plain_text (fraction_part s)"
  by (simp add: fraction_part_def Let_def)

lemma plain_show_int [simp]: "plain_text (show_int i)"
  by (simp add: show_int_def plain_digits_of)

lemma plain_pad2 [simp]: "plain_text (pad2 i)"
  by (simp add: pad2_def Let_def)

lemma plain_g6 [simp]: "plain_text (g6 a)"
  by (simp add: g6_def Let_def plain_digits_of split: prod.split)

text \<open>The text of a number has no comma and no line feed.\<close>

lemma plain_float_out [simp]: "plain_text (float_out x)"
  by (cases x) (simp_all add: float_out_def)

lemma decimal_exponent_10: "decimal_exponent 10 = 1"
  by (simp add: decimal_exponent_def eval_nat_numeral)

lemma decimal_exponent_09: "decimal_exponent (7549747 / 8388608) = - 1"
  by (simp add: decimal_exponent_def eval_nat_numeral)

lemma float_out_10: "float_out (Finite 10) = ''10''"
  by (simp add: float_out_def g6_def decimal_exponent_10 pow10_def round_half_even_def
      strip_zeros_def fraction_part_def digits_of.simps digit_char_def Let_def cong: let_weak_cong)

text \<open>The \<^verbatim>\<open>float\<close> nearest to 0.9 is written with its six digits as \<open>0.9\<close>, and read back.\<close>

lemma float_out_09: "float_out (round32 (9 / 10)) = ''0.9''"
  by (simp add: round32_09 float_out_def g6_def decimal_exponent_09 pow10_def round_half_even_def
      strip_zeros_def fraction_part_def digits_of.simps digit_char_def Let_def cong: let_weak_cong)

lemma float_out_0: "float_out (Finite 0) = ''0''"
  by (simp add: float_out_def g6_def)

lemmas stof_eval = stof_def hex_number_def decimal_number_def skip_space_def is_space_def
  is_digit_def is_xdigit_def lower_def dec_val_def digit_val_def hex_val_def xdigit_val_def
  read_exponent_def pow10_def pow2_def Let_def

lemma stof_10: "stof ''10'' = Some (Finite 10)"
  by (simp add: stof_eval cong: let_weak_cong)

lemma stof_09: "stof ''0.9'' = Some (round32 (9 / 10))"
  by (simp add: stof_eval round32_09 cong: let_weak_cong)

lemma stof_cheese: "stof ''cheese'' = None"
  by (simp add: stof_eval cong: let_weak_cong)

text \<open>A number in hexadecimal notation, and a number beyond the range of a \<^verbatim>\<open>float\<close>.\<close>

lemma stof_hex: "stof ''0x1A'' = Some (Finite 26)"
  by (simp add: stof_eval cong: let_weak_cong)

lemma round32_overflow: "round32 1000000000000000000000000000000000000000 = PInf"
  by (simp add: round32_def round_binary_def pow2_def)

lemma stof_1e39: "stof ''1e39'' = None"
  by (simp add: stof_eval round32_overflow cong: let_weak_cong)

text \<open>A weight of seven digits is written with six, and read back as another number.\<close>

lemma decimal_exponent_seven_digits: "decimal_exponent 1234567 = 6"
  by (simp add: decimal_exponent_def eval_nat_numeral)

lemma float_out_seven_digits: "float_out (Finite 1234567) = ''1.23457e+06''"
  by (simp add: float_out_def g6_def decimal_exponent_seven_digits pow10_def round_half_even_def
      strip_zeros_def fraction_part_def digits_of.simps digit_char_def pad2_def show_int_def
      Let_def cong: let_weak_cong)

lemma stof_six_digits: "stof ''1.23457e+06'' = Some (Finite 1234570)"
  by (simp add: stof_eval cong: let_weak_cong)

subsection \<open>Reading times\<close>

lemmas get_time_eval = get_time_datetime_def get_time_date_def get_time_def do_get_def
  extract_num_def skip_space_def is_digit_def is_space_def lower_def dec_val_def digit_val_def
  finalize_state_def tm_zero_def tm_of_fields_def days_from_civil_def Let_def

text \<open>A full timestamp, and texts that end sooner: after a number, and after a space.\<close>

lemma get_time_datetime_1930:
  "get_time_datetime ''2024-03-11 19:30:00'' = Some (tm_of_fields 2024 3 11 19 30 0)"
  by (simp add: get_time_eval)

lemma get_time_datetime_0330:
  "get_time_datetime ''2024-03-11 03:30:00'' = Some (tm_of_fields 2024 3 11 3 30 0)"
  by (simp add: get_time_eval)

lemma get_time_datetime_235959:
  "get_time_datetime ''2024-03-10 23:59:59'' = Some (tm_of_fields 2024 3 10 23 59 59)"
  by (simp add: get_time_eval)

lemma get_time_datetime_date_only:
  "get_time_datetime ''2024-03-11'' = Some (tm_of_fields 2024 3 11 0 0 0)"
  by (simp add: get_time_eval)

lemma get_time_datetime_1215:
  "get_time_datetime ''2024-03-11 12:15'' = Some (tm_of_fields 2024 3 11 12 15 0)"
  by (simp add: get_time_eval)

lemma get_time_datetime_trailing_space: "get_time_datetime ''2024-03-11 '' = None"
  by (simp add: get_time_eval)

lemma get_time_datetime_garbage: "get_time_datetime ''garbage'' = None"
  by (simp add: get_time_eval)

lemma get_time_datetime_slashes: "get_time_datetime ''2024/03/10 12:00:00'' = None"
  by (simp add: get_time_eval)

lemma get_time_date_Nil [simp]: "get_time_date [] = None"
  by (simp add: get_time_eval)

lemma get_time_date_0310:
  "get_time_date ''2024-03-10'' = Some (tm_of_fields 2024 3 10 0 0 0)"
  by (simp add: get_time_eval)

text \<open>A date without its day is read, and the day of the month is left 0.\<close>

lemma get_time_date_month:
  "get_time_date ''2024-03'' = Some (tm_of_fields 2024 3 0 0 0 0)"
  by (simp add: get_time_eval)

text \<open>A format without conversions of the time of day leaves the time of day as it is.\<close>

lemma do_get_time_of_day:
  "do_get c s t = Some (t', x', s') \<Longrightarrow> c \<noteq> CHR ''H'' \<Longrightarrow> c \<noteq> CHR ''M'' \<Longrightarrow> c \<noteq> CHR ''S'' \<Longrightarrow>
   tm_hour t' = tm_hour t \<and> tm_min t' = tm_min t \<and> tm_sec t' = tm_sec t"
  by (auto simp: do_get_def split: if_splits)

lemma get_loop_time_of_day:
  "get_loop fmt s t x = Some (t', x') \<Longrightarrow>
   CHR ''H'' \<notin> set fmt \<Longrightarrow> CHR ''M'' \<notin> set fmt \<Longrightarrow> CHR ''S'' \<notin> set fmt \<Longrightarrow>
   tm_hour t' = tm_hour t \<and> tm_min t' = tm_min t \<and> tm_sec t' = tm_sec t"
proof (induction fmt s t x rule: get_loop.induct)
  case (1 s t x)
  then show ?case
    by simp
next
  case (2 f fs t x)
  then show ?case
    by simp
next
  case (3 f fs d r t x)
  show ?case
  proof (cases "f = CHR ''%''")
    case True
    with "3.prems"(1) have more: "fs \<noteq> []"
      by (auto split: if_splits)
    with True "3.prems"(1) obtain t1 x1 s1 where conv: "do_get (hd fs) (d # r) t = Some (t1, x1, s1)"
      by (auto split: option.splits)
    from more "3.prems"(2-4) have "hd fs \<noteq> CHR ''H''" "hd fs \<noteq> CHR ''M''" "hd fs \<noteq> CHR ''S''"
      by (cases fs; auto)+
    with conv have same: "tm_hour t1 = tm_hour t \<and> tm_min t1 = tm_min t \<and> tm_sec t1 = tm_sec t"
      by (rule do_get_time_of_day)
    show ?thesis
    proof (cases "s1 = []")
      case True
      with \<open>f = CHR ''%''\<close> more conv "3.prems"(1) same show ?thesis
        by auto
    next
      case False
      with \<open>f = CHR ''%''\<close> more conv "3.prems"(1)
      have rest: "get_loop (tl fs) s1 t1 (x \<or> x1) = Some (t', x')"
        by simp
      from more "3.prems"(2-4) have "CHR ''H'' \<notin> set (tl fs)" "CHR ''M'' \<notin> set (tl fs)"
        "CHR ''S'' \<notin> set (tl fs)"
        by (cases fs; auto)+
      with "3.IH"(1) [OF \<open>f = CHR ''%''\<close> more conv refl refl False rest] same show ?thesis
        by simp
    qed
  next
    case False
    note literal = this
    show ?thesis
    proof (cases "is_space f")
      case True
      with literal "3.prems"(1)
      have rest: "get_loop (dropWhile is_space fs) (skip_space (d # r)) t x = Some (t', x')"
        by simp
      from "3.prems"(2-4) have "CHR ''H'' \<notin> set (dropWhile is_space fs)"
        "CHR ''M'' \<notin> set (dropWhile is_space fs)" "CHR ''S'' \<notin> set (dropWhile is_space fs)"
        by (auto dest: set_dropWhileD)
      with "3.IH"(2) [OF literal True rest] show ?thesis
        by simp
    next
      case False
      with literal "3.prems"(1) have same: "lower d = lower f" and rest: "get_loop fs r t x = Some (t', x')"
        by (auto split: if_splits)
      from "3.IH"(3) [OF literal False same rest] "3.prems"(2-4) show ?thesis
        by simp
    qed
  qed
qed

text \<open>A date that is read is the midnight at which its day begins.\<close>

lemma get_time_date_midnight:
  assumes "get_time_date s = Some t"
  shows "tm_hour t = 0 \<and> tm_min t = 0 \<and> tm_sec t = 0"
proof -
  from assms obtain t0 x0 where loop: "get_loop ''%Y-%m-%d'' (skip_space s) tm_zero False = Some (t0, x0)"
    and final: "t = finalize_state (t0, x0)"
    by (auto simp: get_time_date_def get_time_def split: if_splits)
  from loop have "tm_hour t0 = tm_hour tm_zero \<and> tm_min t0 = tm_min tm_zero \<and> tm_sec t0 = tm_sec tm_zero"
    by (rule get_loop_time_of_day) simp_all
  with final show ?thesis
    by (simp add: finalize_state_def tm_zero_def Let_def)
qed

subsection \<open>The mutex\<close>

lemma lock_free [simp]: "\<not> m_databaseMutex db \<Longrightarrow> lock db = Inr (db\<lparr>m_databaseMutex := True\<rparr>)"
  by (simp add: lock_def)

lemma lock_held [simp]: "m_databaseMutex db \<Longrightarrow> lock db = Inl Deadlock"
  by (simp add: lock_def)

lemma unlock_lock [simp]: "\<not> m_databaseMutex db \<Longrightarrow> unlock (db\<lparr>m_databaseMutex := True\<rparr>) = db"
  by (simp add: unlock_def)

text \<open>The example database is the one the constructor builds.\<close>

lemma WasteDatabase_new_fresh:
  "WasteDatabase_new ''data/waste_data.csv'' 1710144000 no_file = fresh_database"
  by (simp add: WasteDatabase_new_def initialize_def initializeMealPeriods_def no_file_def
      fresh_database_def lock_def unlock_def localtime_def civil_from_days_def days_from_civil_def
      standardMealTimeRanges_def Let_def cong: let_weak_cong)

subsection \<open>Appending\<close>

text \<open>
  C1 (as amended). \<^verbatim>\<open>addEntry\<close> checks nothing: whatever the weight of the observation,
  negative or not, the call succeeds, appends exactly that entry at the end of the ledger,
  sets the dirty flag and notifies the callbacks. It has no result by which it could signal
  a rejection.
\<close>

theorem addEntry_never_rejects:
  "\<not> m_databaseMutex db \<Longrightarrow>
   addEntry entry db =
     Inr (db\<lparr>m_entries := m_entries db @ [entry], m_statisticsDirty := True,
            notified := notified db @ m_changeCallbacks db\<rparr>)"
  by (simp add: addEntry_def unlock_def notifyDatabaseChanged_def)

theorem addEntry_never_rejects_witness:
  "\<not> m_databaseMutex fresh_database \<and>
   addEntry apple_entry fresh_database =
     Inr (fresh_database\<lparr>m_entries := [apple_entry], m_statisticsDirty := True, notified := []\<rparr>)"
  using addEntry_never_rejects [of fresh_database apple_entry]
  by (simp add: fresh_database_def)

text \<open>
  C1 as stated fails: an observation of weight \<open>-1\<close> is appended to the fresh database, and
  the call succeeds.
\<close>

theorem addEntry_negative_weight_counterexample:
  "weight negative_entry = Finite (- 1) \<and>
   addEntry negative_entry fresh_database =
     Inr (fresh_database\<lparr>m_entries := [negative_entry], m_statisticsDirty := True\<rparr>)"
  by (simp add: addEntry_def lock_def unlock_def notifyDatabaseChanged_def fresh_database_def
      negative_entry_def)

subsection \<open>Meal periods\<close>

lemma determineMealPeriod_no_range:
  "\<forall>pr \<in> set ranges. \<not> in_time_range (snd pr) hour minute \<Longrightarrow>
   determineMealPeriod ranges hour minute = SNACK"
  by (induction ranges) (auto simp: in_time_range_def Let_def)

text \<open>
  C2 (as amended). The entry that \<^verbatim>\<open>addDetection\<close> stores carries the label of the
  database's current meal period (set by the constructor from the clock, or by
  \<^verbatim>\<open>setMealPeriod\<close>), whatever the timestamp of the observation. The classifier of
  timestamps, which the append does not call, gives \<^verbatim>\<open>UNKNOWN\<close> for a timestamp that does
  not parse and \<^verbatim>\<open>SNACK\<close> for one whose time of day lies in no range of the table.
\<close>

theorem addDetection_stores_current_meal_period:
  "(\<not> m_databaseMutex db \<longrightarrow>
      addDetection item db =
        Inr (db\<lparr>m_entries := m_entries db @ [entry_of_item db item], m_statisticsDirty := True,
               notified := notified db @ m_changeCallbacks db\<rparr>) \<and>
      mealPeriod (entry_of_item db item) = getMealPeriodString db \<and>
      timestamp (entry_of_item db item) = item_timestamp item) \<and>
   (get_time_datetime ts = None \<longrightarrow> determineMealPeriod_timestamp ranges ts = UNKNOWN) \<and>
   (\<forall>t. get_time_datetime ts = Some t \<and>
        (\<forall>pr \<in> set ranges. \<not> in_time_range (snd pr) (tm_hour t) (tm_min t)) \<longrightarrow>
        determineMealPeriod_timestamp ranges ts = SNACK)"
  by (auto simp: addDetection_def addEntry_def unlock_def notifyDatabaseChanged_def
      entry_of_item_def determineMealPeriod_timestamp_def determineMealPeriod_no_range)

theorem addDetection_stores_current_meal_period_witness:
  "\<not> m_databaseMutex fresh_database \<and>
   addDetection dinner_item fresh_database =
     Inr (fresh_database\<lparr>m_entries := [entry_of_item fresh_database dinner_item],
            m_statisticsDirty := True\<rparr>) \<and>
   mealPeriod (entry_of_item fresh_database dinner_item) = ''Breakfast'' \<and>
   get_time_datetime ''garbage'' = None \<and>
   determineMealPeriod_timestamp standardMealTimeRanges ''garbage'' = UNKNOWN \<and>
   get_time_datetime ''2024-03-11 03:30:00'' = Some (tm_of_fields 2024 3 11 3 30 0) \<and>
   determineMealPeriod_timestamp standardMealTimeRanges ''2024-03-11 03:30:00'' = SNACK \<and>
   get_time_datetime ''2024-03-11'' = Some (tm_of_fields 2024 3 11 0 0 0) \<and>
   determineMealPeriod_timestamp standardMealTimeRanges ''2024-03-11'' = SNACK \<and>
   get_time_datetime ''2024-03-11 '' = None \<and>
   determineMealPeriod_timestamp standardMealTimeRanges ''2024-03-11 '' = UNKNOWN"
proof -
  have free: "\<not> m_databaseMutex fresh_database"
    by (simp add: fresh_database_def)
  have no_range:
    "\<forall>pr \<in> set standardMealTimeRanges.
       \<not> in_time_range (snd pr) (tm_hour (tm_of_fields 2024 3 11 3 30 0))
           (tm_min (tm_of_fields 2024 3 11 3 30 0))"
    by (simp add: standardMealTimeRanges_def in_time_range_def tm_of_fields_def)
  note thm1 = addDetection_stores_current_meal_period
    [of fresh_database dinner_item "''garbage''" standardMealTimeRanges]
  note thm2 = addDetection_stores_current_meal_period
    [of fresh_database dinner_item "''2024-03-11 03:30:00''" standardMealTimeRanges]
  from thm1 free have a:
    "addDetection dinner_item fresh_database =
       Inr (fresh_database\<lparr>m_entries := [entry_of_item fresh_database dinner_item],
              m_statisticsDirty := True\<rparr>)"
    by (simp add: fresh_database_def)
  from thm1 free have b: "mealPeriod (entry_of_item fresh_database dinner_item) = ''Breakfast''"
    by (simp add: fresh_database_def getMealPeriodString_def)
  from thm1 get_time_datetime_garbage
  have c: "determineMealPeriod_timestamp standardMealTimeRanges ''garbage'' = UNKNOWN"
    by simp
  from thm2 get_time_datetime_0330 no_range
  have d: "determineMealPeriod_timestamp standardMealTimeRanges ''2024-03-11 03:30:00'' = SNACK"
    by blast
  have no_range_midnight:
    "\<forall>pr \<in> set standardMealTimeRanges.
       \<not> in_time_range (snd pr) (tm_hour (tm_of_fields 2024 3 11 0 0 0))
           (tm_min (tm_of_fields 2024 3 11 0 0 0))"
    by (simp add: standardMealTimeRanges_def in_time_range_def tm_of_fields_def)
  note thm3 = addDetection_stores_current_meal_period
    [of fresh_database dinner_item "''2024-03-11''" standardMealTimeRanges]
  note thm4 = addDetection_stores_current_meal_period
    [of fresh_database dinner_item "''2024-03-11 ''" standardMealTimeRanges]
  from thm3 get_time_datetime_date_only no_range_midnight
  have e: "determineMealPeriod_timestamp standardMealTimeRanges ''2024-03-11'' = SNACK"
    by blast
  from thm4 get_time_datetime_trailing_space
  have f: "determineMealPeriod_timestamp standardMealTimeRanges ''2024-03-11 '' = UNKNOWN"
    by simp
  from free a b c d e f get_time_datetime_garbage get_time_datetime_0330
    get_time_datetime_date_only get_time_datetime_trailing_space
  show ?thesis
    by simp
qed

text \<open>
  C2 as stated fails: an observation timestamped 19:30, in the dinner range, is stored by
  a database whose current meal period is breakfast with the label \<open>Breakfast\<close>.
\<close>

theorem addDetection_meal_period_counterexample:
  "determineMealPeriod_timestamp (m_mealTimeRanges fresh_database) (item_timestamp dinner_item) = DINNER \<and>
   addDetection dinner_item fresh_database =
     Inr (fresh_database
            \<lparr>m_entries :=
               [\<lparr>foodType = ''rice'', weight = Finite 50, timestamp = ''2024-03-11 19:30:00'',
                 confidence = round32 (9 / 10), mealPeriod = ''Breakfast'', imageFilename = []\<rparr>],
             m_statisticsDirty := True\<rparr>)"
  by (simp add: addDetection_def addEntry_def lock_def unlock_def notifyDatabaseChanged_def
      entry_of_item_def fresh_database_def dinner_item_def getMealPeriodString_def
      determineMealPeriod_timestamp_def get_time_datetime_1930 tm_of_fields_def
      standardMealTimeRanges_def)

subsection \<open>Statistics and their cache\<close>

lemma acc_totalWeight_accumulate [simp]:
  "acc_totalWeight (accumulate a entry) = fadd (acc_totalWeight a) (weight entry)"
  by (simp add: accumulate_def Let_def split: option.split)

lemma acc_totalWeight_foldl:
  "acc_totalWeight (foldl accumulate a es) =
     foldl (\<lambda>w entry. fadd w (weight entry)) (acc_totalWeight a) es"
  by (induction es arbitrary: a) simp_all

lemma totalWeight_calculateStatistics [simp]:
  "totalWeight (calculateStatistics now es) = sum_weights es"
  by (simp add: calculateStatistics_def sum_weights_def WasteStatistics_new_def
      acc_totalWeight_foldl Aggregates_new_def Let_def split: prod.split)

lemma totalItems_calculateStatistics [simp]:
  "totalItems (calculateStatistics now es) = of_nat (length es)"
  by (simp add: calculateStatistics_def WasteStatistics_new_def Let_def split: prod.split)

lemma sum_weights_snoc [simp]: "sum_weights (es @ [entry]) = fadd (sum_weights es) (weight entry)"
  by (simp add: sum_weights_def)

text \<open>A request for all time, with the mutex free: the cache, recomputed first when it is dirty.\<close>

lemma getStatistics_ALL_TIME:
  "\<not> m_databaseMutex db \<Longrightarrow>
   getStatistics ALL_TIME now db =
     (if m_statisticsDirty db
      then (Inr (calculateStatistics now (m_entries db)),
            db\<lparr>m_statistics := calculateStatistics now (m_entries db), m_statisticsDirty := False\<rparr>)
      else (Inr (m_statistics db), db))"
  by (simp add: getStatistics_def unlock_def Let_def)

text \<open>
  A request for a bounded period, with the mutex free: the cache is recomputed and the
  dirty flag cleared, and then the call of \<^verbatim>\<open>getEntries\<close> locks the mutex that the request
  holds.
\<close>

lemma getStatistics_bounded:
  "\<not> m_databaseMutex db \<Longrightarrow> period \<noteq> ALL_TIME \<Longrightarrow>
   getStatistics period now db =
     (Inl Deadlock,
      db\<lparr>m_databaseMutex := True, m_statistics := calculateStatistics now (m_entries db),
         m_statisticsDirty := False\<rparr>)"
  by (simp add: getStatistics_def getEntries_def Let_def)

lemma getStatistics_held: "m_databaseMutex db \<Longrightarrow> getStatistics period now db = (Inl Deadlock, db)"
  by (simp add: getStatistics_def)

text \<open>The ledger is the same after every statistics request.\<close>

lemma getStatistics_entries [simp]: "m_entries (snd (getStatistics period now db)) = m_entries db"
  by (cases "m_databaseMutex db"; cases "period = ALL_TIME")
     (simp_all add: getStatistics_held getStatistics_ALL_TIME getStatistics_bounded)

text \<open>The constructor, an append and a statistics request leave the cache valid.\<close>

lemma cache_valid_fresh: "cache_valid fresh_database"
  by (simp add: cache_valid_def fresh_database_def)

lemma cache_valid_addEntry: "addEntry entry db = Inr db' \<Longrightarrow> cache_valid db'"
  by (auto simp: addEntry_def lock_def unlock_def notifyDatabaseChanged_def cache_valid_def
      split: if_splits)

lemma cache_valid_getStatistics:
  "cache_valid db \<Longrightarrow> cache_valid (snd (getStatistics period now db))"
  by (cases "m_databaseMutex db"; cases "period = ALL_TIME")
     (simp_all add: getStatistics_held getStatistics_ALL_TIME getStatistics_bounded cache_valid_def)


lemma served_database_reached:
  "addEntry apple_entry fresh_database = Inr (fresh_database\<lparr>m_entries := [apple_entry]\<rparr>) \<and>
   getStatistics ALL_TIME 1710144000 (fresh_database\<lparr>m_entries := [apple_entry]\<rparr>) =
     (Inr (calculateStatistics 1710144000 [apple_entry]), served_database)"
  by (simp add: addEntry_def lock_def unlock_def notifyDatabaseChanged_def getStatistics_ALL_TIME
      served_database_def fresh_database_def)



text \<open>
  C10, at a failing input: a request for the statistics of the last day, on a ledger of
  one entry whose cache is dirty, recomputes the cache and clears the dirty flag, leaves
  the ledger as it is, and does not return: it ends in the deadlock, the mutex held. The
  request for all time that follows finds the mutex held and does not return either.
\<close>

theorem getStatistics_bounded_period_deadlock:
  "getStatistics DAY 1710144000 (fresh_database\<lparr>m_entries := [apple_entry]\<rparr>) =
     (Inl Deadlock,
      fresh_database\<lparr>m_entries := [apple_entry], m_databaseMutex := True,
         m_statistics := calculateStatistics 1710144000 [apple_entry], m_statisticsDirty := False\<rparr>) \<and>
   fst (getStatistics ALL_TIME 1710144000
          (snd (getStatistics DAY 1710144000 (fresh_database\<lparr>m_entries := [apple_entry]\<rparr>)))) =
     Inl Deadlock"
  by (simp add: getStatistics_bounded getStatistics_held fresh_database_def)

subsection \<open>Queries by date\<close>

lemma getEntries_free:
  "\<not> m_databaseMutex db \<Longrightarrow>
   getEntries ft startDate endDate db =
     Inr (let filteredEntries =
                (if ft = [] then m_entries db else filter (\<lambda>entry. foodType entry = ft) (m_entries db))
          in if startDate = [] \<and> endDate = [] then filteredEntries
             else filterEntriesByDate filteredEntries startDate endDate)"
  by (simp add: getEntries_def Let_def)

lemma mktime_end_of_day:
  "tm_hour t = 0 \<and> tm_min t = 0 \<and> tm_sec t = 0 \<Longrightarrow>
   mktime (end_of_day t) = mktime t + 86399 \<and>
   mktime t = days_from_civil (tm_year t + 1900) (tm_mon t + 1) (tm_mday t) * 86400"
  by (simp add: mktime_def end_of_day_def)


text \<open>
  C9. A query with an end date that parses, the mutex free. The result is exactly the
  entries of the ledger in their order, of the food type asked for when one is given,
  whose timestamp parses to a time that is not after the bound and, when a start date is
  given and parses, not before the start date. The bound is 86399 seconds after the
  midnight at which the day of the end date begins, which is 23:59:59 of that day, and
  it is not strict: an entry of that very second is in the result, an entry of the
  second after it is not.
\<close>

theorem getEntries_end_date_inclusive:
  assumes "\<not> m_databaseMutex db" and "get_time_date endDate = Some endTm"
  shows "getEntries ft startDate endDate db =
           Inr (filter
                  (\<lambda>entry.
                     (ft = [] \<or> foodType entry = ft) \<and>
                     (case get_time_datetime (timestamp entry) of
                        None \<Rightarrow> False
                      | Some t \<Rightarrow>
                          (case (if startDate = [] then None else get_time_date startDate) of
                             None \<Rightarrow> True
                           | Some startTm \<Rightarrow> mktime startTm \<le> mktime t) \<and>
                          mktime t \<le> mktime endTm + 86399))
                  (m_entries db)) \<and>
         mktime endTm =
           days_from_civil (tm_year endTm + 1900) (tm_mon endTm + 1) (tm_mday endTm) * 86400"
proof -
  from assms(2) have nonempty: "endDate \<noteq> []"
    by auto
  from assms(2) have "tm_hour endTm = 0 \<and> tm_min endTm = 0 \<and> tm_sec endTm = 0"
    by (rule get_time_date_midnight)
  then have bound: "mktime (end_of_day endTm) = mktime endTm + 86399"
    and midnight: "mktime endTm =
      days_from_civil (tm_year endTm + 1900) (tm_mon endTm + 1) (tm_mday endTm) * 86400"
    using mktime_end_of_day [of endTm] by simp_all
  have "getEntries ft startDate endDate db =
      Inr (filterEntriesByDate
             (if ft = [] then m_entries db else filter (\<lambda>entry. foodType entry = ft) (m_entries db))
             startDate endDate)"
    using assms(1) nonempty by (simp add: getEntries_free)
  also have "filterEntriesByDate
      (if ft = [] then m_entries db else filter (\<lambda>entry. foodType entry = ft) (m_entries db))
      startDate endDate =
    filter
      (\<lambda>entry.
         (ft = [] \<or> foodType entry = ft) \<and>
         (case get_time_datetime (timestamp entry) of
            None \<Rightarrow> False
          | Some t \<Rightarrow>
              (case (if startDate = [] then None else get_time_date startDate) of
                 None \<Rightarrow> True
               | Some startTm \<Rightarrow> mktime startTm \<le> mktime t) \<and>
              mktime t \<le> mktime endTm + 86399))
      (m_entries db)"
    using nonempty assms(2) bound
    by (auto simp: filterEntriesByDate_def Let_def intro!: filter_cong split: option.splits)
  finally show ?thesis
    using midnight by simp
qed

lemma get_time_datetime_old:
  "get_time_datetime ''2023-06-01 12:00:00'' = Some (tm_of_fields 2023 6 1 12 0 0)"
  by (simp add: get_time_eval)

lemma get_time_datetime_midnight:
  "get_time_datetime ''2024-03-11 00:00:00'' = Some (tm_of_fields 2024 3 11 0 0 0)"
  by (simp add: get_time_eval)

lemma mktime_examples:
  "mktime (tm_of_fields 2024 3 10 0 0 0) = 1710028800"
  "mktime (tm_of_fields 2024 3 10 23 59 59) = 1710115199"
  "mktime (tm_of_fields 2024 3 11 0 0 0) = 1710115200"
  "mktime (tm_of_fields 2024 3 0 0 0 0) = 1709164800"
  "mktime (tm_of_fields 2023 6 1 12 0 0) = 1685620800"
  by (simp_all add: mktime_def tm_of_fields_def days_from_civil_def)

theorem getEntries_end_date_inclusive_witness:
  "\<not> m_databaseMutex (fresh_database\<lparr>m_entries := [old_entry, boundary_entry, midnight_entry]\<rparr>) \<and>
   get_time_date ''2024-03-10'' = Some (tm_of_fields 2024 3 10 0 0 0) \<and>
   mktime (tm_of_fields 2024 3 10 0 0 0) = 1710028800 \<and>
   get_time_date ''2024-03'' = Some (tm_of_fields 2024 3 0 0 0 0) \<and>
   mktime (tm_of_fields 2024 3 0 0 0 0) = 1709164800 \<and>
   get_time_datetime (timestamp old_entry) = Some (tm_of_fields 2023 6 1 12 0 0) \<and>
   mktime (tm_of_fields 2023 6 1 12 0 0) = 1685620800 \<and>
   get_time_datetime (timestamp boundary_entry) = Some (tm_of_fields 2024 3 10 23 59 59) \<and>
   mktime (tm_of_fields 2024 3 10 23 59 59) = 1710028800 + 86399 \<and>
   get_time_datetime (timestamp midnight_entry) = Some (tm_of_fields 2024 3 11 0 0 0) \<and>
   mktime (tm_of_fields 2024 3 11 0 0 0) = 1710028800 + 86400 \<and>
   getEntries [] ''2024-03'' ''2024-03-10''
     (fresh_database\<lparr>m_entries := [old_entry, boundary_entry, midnight_entry]\<rparr>) =
     Inr [boundary_entry] \<and>
   getEntries ''rice'' [] ''2024-03-10''
     (fresh_database\<lparr>m_entries := [old_entry, boundary_entry, midnight_entry]\<rparr>) =
     Inr [old_entry]"
proof -
  let ?db = "fresh_database\<lparr>m_entries := [old_entry, boundary_entry, midnight_entry]\<rparr>"
  have free: "\<not> m_databaseMutex ?db"
    by (simp add: fresh_database_def)
  have stamps: "get_time_datetime (timestamp old_entry) = Some (tm_of_fields 2023 6 1 12 0 0)"
    "get_time_datetime (timestamp boundary_entry) = Some (tm_of_fields 2024 3 10 23 59 59)"
    "get_time_datetime (timestamp midnight_entry) = Some (tm_of_fields 2024 3 11 0 0 0)"
    by (simp_all add: old_entry_def boundary_entry_def midnight_entry_def get_time_datetime_old
        get_time_datetime_235959 get_time_datetime_midnight)
  have types: "foodType old_entry = ''rice''" "foodType boundary_entry = ''bread''"
    "foodType midnight_entry = ''bread''"
    by (simp_all add: old_entry_def boundary_entry_def midnight_entry_def)
  from getEntries_end_date_inclusive [OF free get_time_date_0310, of "[]" "''2024-03''"]
  have month: "getEntries [] ''2024-03'' ''2024-03-10'' ?db = Inr [boundary_entry]"
    by (simp add: stamps get_time_date_month mktime_examples)
  from getEntries_end_date_inclusive [OF free get_time_date_0310, of "''rice''" "[]"]
  have rice: "getEntries ''rice'' [] ''2024-03-10'' ?db = Inr [old_entry]"
    by (simp add: stamps types mktime_examples)
  from free month rice show ?thesis
    by (simp add: get_time_date_0310 get_time_date_month stamps mktime_examples)
qed

subsection \<open>Trends\<close>

lemma changePercentage_trend_of:
  "changePercentage (trend_of days m) = calculateTrendPercentage (trendValues (trend_of days m))"
  by (simp add: trend_of_def Let_def)

lemma increasing_trend_of:
  "increasing (trend_of days m) = fgt (changePercentage (trend_of days m)) (Finite 0)"
  by (simp add: trend_of_def Let_def)

lemma calculateTrendPercentage_Nil [simp]: "calculateTrendPercentage [] = Finite 0"
  by (simp add: calculateTrendPercentage_def)

text \<open>
  C7. The change of a series of at least two values is 0 when its first value is 0, and
  (last - first) / first * 100 otherwise; the change of a shorter series is 0. Every
  trend that the analyzer builds reports the change of its own series, and its flag
  \<open>increasing\<close> is true exactly when that change is greater than 0: so for the shared end
  of the three trend functions, and for the trends by food type and by meal period, which
  return one whenever the mutex is free.
\<close>

theorem calculateTrendPercentage_endpoints:
  "(2 \<le> length vs \<longrightarrow>
      calculateTrendPercentage vs =
        (if feq (hd vs) (Finite 0) then Finite 0
         else fmul (fdiv (fsub (last vs) (hd vs)) (hd vs)) (Finite 100))) \<and>
   (length vs < 2 \<longrightarrow> calculateTrendPercentage vs = Finite 0) \<and>
   changePercentage (trend_of days m) = calculateTrendPercentage (trendValues (trend_of days m)) \<and>
   increasing (trend_of days m) = fgt (changePercentage (trend_of days m)) (Finite 0) \<and>
   (\<not> m_databaseMutex db \<longrightarrow>
      (\<exists>t a'. analyzeFoodTypeTrend key days a db = (Inr t, a') \<and>
          changePercentage t = calculateTrendPercentage (trendValues t) \<and>
          increasing t = fgt (changePercentage t) (Finite 0)) \<and>
      (\<exists>t a'. analyzeMealPeriodTrend key days a db = (Inr t, a') \<and>
          changePercentage t = calculateTrendPercentage (trendValues t) \<and>
          increasing t = fgt (changePercentage t) (Finite 0)))"
proof -
  have new: "changePercentage TrendData_new = calculateTrendPercentage (trendValues TrendData_new)"
    "increasing TrendData_new = fgt (changePercentage TrendData_new) (Finite 0)"
    by (simp_all add: TrendData_new_def fgt_def)
  have food: "\<exists>t a'. analyzeFoodTypeTrend key days a db = (Inr t, a') \<and>
      changePercentage t = calculateTrendPercentage (trendValues t) \<and>
      increasing t = fgt (changePercentage t) (Finite 0)" if "\<not> m_databaseMutex db"
    using that new
    by (simp add: analyzeFoodTypeTrend_def getEntries_free Let_def
        changePercentage_trend_of [symmetric] increasing_trend_of [symmetric])
  have meal: "\<exists>t a'. analyzeMealPeriodTrend key days a db = (Inr t, a') \<and>
      changePercentage t = calculateTrendPercentage (trendValues t) \<and>
      increasing t = fgt (changePercentage t) (Finite 0)" if "\<not> m_databaseMutex db"
    using that new
    by (simp add: analyzeMealPeriodTrend_def getEntries_free Let_def
        changePercentage_trend_of [symmetric] increasing_trend_of [symmetric])
  have long: "2 \<le> length vs \<longrightarrow>
      calculateTrendPercentage vs =
        (if feq (hd vs) (Finite 0) then Finite 0
         else fmul (fdiv (fsub (last vs) (hd vs)) (hd vs)) (Finite 100))"
    by (simp add: calculateTrendPercentage_def Let_def)
  have short: "length vs < 2 \<longrightarrow> calculateTrendPercentage vs = Finite 0"
    by (simp add: calculateTrendPercentage_def)
  from long short food meal changePercentage_trend_of [of days m] increasing_trend_of [of days m]
  show ?thesis
    by blast
qed

lemma trend_of_three_days:
  "trend_of 30 three_days =
     \<lparr>timeLabels = [''2024-03-09'', ''2024-03-10'', ''2024-03-11''],
      trendValues = [Finite 10, Finite 20, Finite 30], changePercentage = Finite 200,
      increasing = True\<rparr>"
  by (simp add: trend_of_def three_days_def sort_by_def pair_less_def limit_days_def
      size_t_of_int_def calculateTrendPercentage_def fsub_def fgt_def Let_def)

theorem calculateTrendPercentage_endpoints_witness:
  "2 \<le> length [Finite 0, Finite 5, Finite 8] \<and>
   calculateTrendPercentage [Finite 0, Finite 5, Finite 8] = Finite 0 \<and>
   calculateTrendPercentage [Finite 10, Finite 20, Finite 30] = Finite 200 \<and>
   length [Finite 5] < 2 \<and> calculateTrendPercentage [Finite 5] = Finite 0 \<and>
   changePercentage (trend_of 30 three_days) = Finite 200 \<and> increasing (trend_of 30 three_days) \<and>
   \<not> m_databaseMutex fresh_database \<and>
   fst (analyzeFoodTypeTrend ''apple'' 30 fresh_analyzer fresh_database) = Inr TrendData_new"
proof -
  note endpoints = calculateTrendPercentage_endpoints
  have a: "calculateTrendPercentage [Finite 0, Finite 5, Finite 8] = Finite 0"
    using endpoints [of "[Finite 0, Finite 5, Finite 8]"] by simp
  have b: "calculateTrendPercentage [Finite 10, Finite 20, Finite 30] = Finite 200"
    using endpoints [of "[Finite 10, Finite 20, Finite 30]"] by (simp add: fsub_def)
  have c: "calculateTrendPercentage [Finite 5] = Finite 0"
    using endpoints [of "[Finite 5]"] by simp
  have "increasing (trend_of 30 three_days) = fgt (changePercentage (trend_of 30 three_days)) (Finite 0)"
    using endpoints [of "[]" 30 three_days fresh_database "[]" fresh_analyzer] by blast
  then have d: "increasing (trend_of 30 three_days)"
    by (simp add: trend_of_three_days fgt_def)
  have free: "\<not> m_databaseMutex fresh_database"
    by (simp add: fresh_database_def)
  have e: "fst (analyzeFoodTypeTrend ''apple'' 30 fresh_analyzer fresh_database) = Inr TrendData_new"
    using endpoints [of "[]" 30 "[]" fresh_database "''apple''" fresh_analyzer] free
    by (simp add: analyzeFoodTypeTrend_def getEntries_free fresh_database_def)
  from a b c d e free show ?thesis
    by (simp add: trend_of_three_days)
qed

subsection \<open>Outliers\<close>

text \<open>
  C5, at a failing input: for three weekdays of weight 10 each, the standard deviation
  is 0 and the z-score of the value 10 is the quotient of 0 by 0, NaN; no key is
  flagged, since NaN is not greater than the threshold.
\<close>

theorem identifyOutliers_zero_deviation:
  "outlier_mean equal_days = Finite 10 \<and> outlier_stdDev equal_days = Finite 0 \<and>
   zScore equal_days (Finite 10) = NaN \<and> identifyOutliers equal_days (Finite (3 / 2)) = []"
proof -
  have mean: "outlier_mean equal_days = Finite 10"
    by (simp add: outlier_mean_def equal_days_def float_of_size_def)
  have dev: "outlier_stdDev equal_days = Finite 0"
    by (simp add: outlier_stdDev_def mean Let_def fsub_def) (simp add: equal_days_def float_of_size_def)
  have z: "zScore equal_days (Finite 10) = NaN"
    by (simp add: zScore_def mean dev fsub_def)
  have "identifyOutliers equal_days (Finite (3 / 2)) = []"
    by (simp add: identifyOutliers_def equal_days_def z [unfolded equal_days_def] fgt_def)
  with mean dev z show ?thesis
    by simp
qed

subsection \<open>Timestamps that do not parse\<close>

text \<open>
  In the statistics an entry whose timestamp does not parse adds to the total and to the
  sums by type and by meal, and to no weekday, month or date.
\<close>

lemma accumulate_unparsable:
  "get_time_datetime (timestamp entry) = None \<Longrightarrow>
   accumulate a entry =
     a\<lparr>acc_totalWeight := fadd (acc_totalWeight a) (weight entry),
       acc_weightByType := map_add_weight (foodType entry) (weight entry) (acc_weightByType a),
       acc_countByType := map_increment (foodType entry) (acc_countByType a),
       acc_weightByMeal := map_add_weight (mealPeriod entry) (weight entry) (acc_weightByMeal a)\<rparr>"
  by (simp add: accumulate_def Let_def)

lemma calculateStatistics_slash_entry:
  "calculateStatistics now [slash_entry] =
     WasteStatistics_new
       \<lparr>totalWeight := Finite 10, totalItems := 1, weightByType := [(''apple'', Finite 10)],
        countByType := [(''apple'', 1)], topWastedFoods := [''apple''],
        weightByMeal := [(''Lunch'', Finite 10)],
        dailyTrend := map (\<lambda>d. Finite 0) (last_dates now 30)\<rparr>"
  by (simp add: calculateStatistics_def accumulate_def week_step_def slash_entry_def
      get_time_datetime_slashes Aggregates_new_def WasteStatistics_new_def map_add_weight_def
      map_increment_def top_foods_def sort_by_def map_get_or_zero_def fsub_def fgt_def Let_def)

text \<open>
  C4, at a failing input: the timestamp \<open>2024/03/10 12:00:00\<close> does not parse. The
  statistics count its entry in the totals and in the sums by type and by meal, and in no
  weekday or month; the trend of its food type has a day for it, labelled with the first
  ten characters of the timestamp.
\<close>

theorem analyzeFoodTypeTrend_unparsable_timestamp:
  "get_time_datetime (timestamp slash_entry) = None \<and>
   totalWeight (calculateStatistics 1710144000 [slash_entry]) = Finite 10 \<and>
   totalItems (calculateStatistics 1710144000 [slash_entry]) = 1 \<and>
   weightByType (calculateStatistics 1710144000 [slash_entry]) = [(''apple'', Finite 10)] \<and>
   weightByMeal (calculateStatistics 1710144000 [slash_entry]) = [(''Lunch'', Finite 10)] \<and>
   weightByDay (calculateStatistics 1710144000 [slash_entry]) = [] \<and>
   weightByMonth (calculateStatistics 1710144000 [slash_entry]) = [] \<and>
   fst (analyzeFoodTypeTrend ''apple'' 30 fresh_analyzer (fresh_database\<lparr>m_entries := [slash_entry]\<rparr>)) =
     Inr \<lparr>timeLabels = [''2024/03/10''], trendValues = [Finite 10], changePercentage = Finite 0,
          increasing = False\<rparr>"
proof -
  have "fst (analyzeFoodTypeTrend ''apple'' 30 fresh_analyzer (fresh_database\<lparr>m_entries := [slash_entry]\<rparr>)) =
     Inr \<lparr>timeLabels = [''2024/03/10''], trendValues = [Finite 10], changePercentage = Finite 0,
          increasing = False\<rparr>"
    by (simp add: analyzeFoodTypeTrend_def getEntries_free fresh_database_def slash_entry_def
        map_add_weight_def trend_of_def sort_by_def limit_days_def size_t_of_int_def
        calculateTrendPercentage_def fgt_def Let_def)
  moreover have "get_time_datetime (timestamp slash_entry) = None"
    by (simp add: slash_entry_def get_time_datetime_slashes)
  ultimately show ?thesis
    by (simp add: calculateStatistics_slash_entry WasteStatistics_new_def)
qed

subsection \<open>Prediction\<close>

lemma getWasteTrend_bounded:
  "\<not> m_databaseMutex db \<Longrightarrow> period \<noteq> ALL_TIME \<Longrightarrow> fst (getWasteTrend period now db) = Inl Deadlock"
  by (simp add: getWasteTrend_def getStatistics_bounded)

lemma analyzeDailyTrend_deadlock:
  "\<not> m_databaseMutex db \<Longrightarrow> fst (analyzeDailyTrend days now db) = Inl Deadlock"
proof -
  assume free: "\<not> m_databaseMutex db"
  let ?period = "if days \<le> 7 then WEEK else if days \<le> 30 then MONTH else YEAR"
  have "?period \<noteq> ALL_TIME"
    by simp
  with free have "fst (getWasteTrend ?period now db) = Inl Deadlock"
    by (rule getWasteTrend_bounded)
  then show ?thesis
    unfolding analyzeDailyTrend_def by (cases "getWasteTrend ?period now db") simp
qed

text \<open>
  \<^verbatim>\<open>updateStats\<close> does not return: its request for the statistics of all time returns,
  and the daily trend that it asks for next requests the statistics of a bounded period.
\<close>

lemma updateStats_deadlock:
  "\<not> m_databaseMutex db \<Longrightarrow> fst (updateStats now a db) = Inl Deadlock"
proof -
  assume free: "\<not> m_databaseMutex db"
  obtain st db1 where first: "getStatistics ALL_TIME now db = (Inr st, db1)"
    and free1: "\<not> m_databaseMutex db1"
    using free by (cases "m_statisticsDirty db") (simp_all add: getStatistics_ALL_TIME)
  from free1 have "fst (analyzeDailyTrend 30 now db1) = Inl Deadlock"
    by (rule analyzeDailyTrend_deadlock)
  then show ?thesis
    unfolding updateStats_def using first by (cases "analyzeDailyTrend 30 now db1") (simp add: Let_def)
qed

text \<open>So the constructor of the analyzer does not return either.\<close>

lemma StatsAnalyzer_new_deadlock:
  "\<not> m_databaseMutex db \<Longrightarrow> fst (StatsAnalyzer_new now db) = Inl Deadlock"
  by (simp add: StatsAnalyzer_new_def updateStats_deadlock)

text \<open>With a model of \<open>|R\<^sup>2| \<ge> 0.1\<close> the forecast is the line at the day asked for, at least 0.\<close>

lemma predictFutureWaste_fit:
  "0 \<le> daysInFuture \<Longrightarrow> \<not> flt (fabs (rSquared (m_wastePredictionModel a))) (round32 (1 / 10)) \<Longrightarrow>
   predictFutureWaste daysInFuture now a db =
     (Inr (fmax (Finite 0)
             (fadd (intercept (m_wastePredictionModel a))
                (fmul (slope (m_wastePredictionModel a))
                   (fadd (float_of_size ((length (trendValues (m_dailyTrend a)) + (2 ^ 64 - 1)) mod 2 ^ 64))
                      (float_of_int daysInFuture))))),
      a, db)"
  by (simp add: predictFutureWaste_def Let_def)

lemma predictFutureWaste_weak_fit:
  "0 \<le> daysInFuture \<Longrightarrow> flt (fabs (rSquared (m_wastePredictionModel a))) (round32 (1 / 10)) \<Longrightarrow>
   \<not> m_databaseMutex db \<Longrightarrow> fst (predictFutureWaste daysInFuture now a db) = Inl Deadlock"
  using updateStats_deadlock [of db now a]
  by (cases "updateStats now a db") (simp add: predictFutureWaste_def)

lemma int_of_size_3 [simp]: "int_of_size (Suc (Suc (Suc 0))) = 3"
  by (simp add: int_of_size_def)

lemma createPredictionModel_falling:
  "createPredictionModel [Finite 100, Finite 50, Finite 0] =
     \<lparr>intercept = Finite 100, slope = Finite (- 50), rSquared = Finite 1\<rparr>"
  by (simp add: createPredictionModel_def performLinearRegression_def iota_def float_of_size_def
      float_of_int_def sums_step_def residual_step_def model_of_def fsub_def Let_def round64_1e9
      upt_rec [of 0] upt_rec [of 1] upt_rec [of 2] cong: let_weak_cong)

lemma createPredictionModel_flat:
  "createPredictionModel [Finite 5, Finite 5, Finite 5] =
     \<lparr>intercept = Finite 5, slope = Finite 0, rSquared = Finite 0\<rparr>"
  by (simp add: createPredictionModel_def performLinearRegression_def iota_def float_of_size_def
      float_of_int_def sums_step_def residual_step_def model_of_def fsub_def Let_def round64_1e9
      upt_rec [of 0] upt_rec [of 1] upt_rec [of 2] cong: let_weak_cong)

text \<open>
  The forecast of the example of C8: the model fitted to the series 100, 50, 0 has the
  intercept 100, the slope -50 and \<open>R\<^sup>2 = 1\<close>, and its forecast for ten days ahead is 0.
\<close>

lemma predictFutureWaste_falling:
  "predictFutureWaste 10 now falling_analyzer db = (Inr (Finite 0), falling_analyzer, db)"
proof -
  have model: "m_wastePredictionModel falling_analyzer =
      \<lparr>intercept = Finite 100, slope = Finite (- 50), rSquared = Finite 1\<rparr>"
    by (simp add: falling_analyzer_def createPredictionModel_falling)
  have series: "length (trendValues (m_dailyTrend falling_analyzer)) = 3"
    by (simp add: falling_analyzer_def)
  show ?thesis
    by (simp add: predictFutureWaste_fit model series float_of_size_def float_of_int_def fmax_def
        round32_01)
qed

text \<open>
  C8, at a failing input: an analyzer whose daily series is 5, 5, 5 and whose model is
  fitted to that series (intercept 5, slope 0, \<open>R\<^sup>2 = 0\<close>), a forecast ten days ahead.
  The fit is weak, so the forecast first calls \<^verbatim>\<open>updateStats\<close>, which does not return.
\<close>

theorem predictFutureWaste_weak_fit_deadlock:
  "m_wastePredictionModel flat_analyzer =
     \<lparr>intercept = Finite 5, slope = Finite 0, rSquared = Finite 0\<rparr> \<and>
   fst (predictFutureWaste 10 1710144000 flat_analyzer fresh_database) = Inl Deadlock"
proof -
  have model: "m_wastePredictionModel flat_analyzer =
      \<lparr>intercept = Finite 5, slope = Finite 0, rSquared = Finite 0\<rparr>"
    by (simp add: flat_analyzer_def createPredictionModel_flat)
  have free: "\<not> m_databaseMutex fresh_database"
    by (simp add: fresh_database_def)
  have "fst (predictFutureWaste 10 1710144000 flat_analyzer fresh_database) = Inl Deadlock"
    by (rule predictFutureWaste_weak_fit) (simp_all add: model free round32_01)
  with model show ?thesis
    by simp
qed

subsection \<open>Saving and loading\<close>

lemma split_on_delimited: "d \<notin> set t \<Longrightarrow> split_on d (t @ d # rest) = t # split_on d rest"
  by (induction t) auto

lemma split_on_last: "d \<notin> set t \<Longrightarrow> split_on d t = (if t = [] then [] else [t])"
  by (induction t) auto

lemma split_entry_text:
  assumes "storable entry"
  shows "split_on CHR '','' (entry_text entry) =
           [foodType entry, float_out (weight entry), timestamp entry, float_out (confidence entry),
            mealPeriod entry] @ (if imageFilename entry = [] then [] else [imageFilename entry])"
proof -
  have comma: "CHR '','' \<notin> set (foodType entry)" "CHR '','' \<notin> set (timestamp entry)"
    "CHR '','' \<notin> set (mealPeriod entry)" "CHR '','' \<notin> set (imageFilename entry)"
    using assms by (simp_all add: storable_def plain_text_def)
  have number: "CHR '','' \<notin> set (float_out x)" for x
    using plain_float_out [of x] by (simp add: plain_text_def)
  show ?thesis
    by (simp add: entry_text_def split_on_delimited split_on_last comma number)
qed

text \<open>A line of the file is read back as the entry it was written from.\<close>

lemma parse_entry_text: "storable entry \<Longrightarrow> parse_line (entry_text entry) = Some entry"
proof -
  assume ok: "storable entry"
  have six: "[0..<6] = [0, 1, 2, 3, 4, 5]"
    by (simp add: upt_rec)
  from ok have numbers: "stof (float_out (weight entry)) = Some (weight entry)"
    "stof (float_out (confidence entry)) = Some (confidence entry)"
    by (simp_all add: storable_def)
  have "parse_line (entry_text entry) =
      Some (WasteEntry_new\<lparr>foodType := foodType entry, weight := weight entry,
              timestamp := timestamp entry, confidence := confidence entry,
              mealPeriod := mealPeriod entry, imageFilename := imageFilename entry\<rparr>)"
    by (simp add: parse_line_def split_entry_text [OF ok] six assign_field_def numbers
        WasteEntry_new_def)
  then show ?thesis
    by (simp add: WasteEntry_new_def)
qed

lemma plain_entry_text: "storable entry \<Longrightarrow> CHR 0x0A \<notin> set (entry_text entry)"
  using plain_float_out [of "weight entry"] plain_float_out [of "confidence entry"]
  by (simp add: entry_text_def storable_def plain_text_def)

lemma split_lines_entries:
  "\<forall>entry \<in> set es. storable entry \<Longrightarrow>
   split_on (CHR 0x0A) (concat (map entry_line es)) = map entry_text es"
  by (induction es) (simp_all add: entry_line_def split_on_delimited plain_entry_text)

lemma split_lines_file:
  "\<forall>entry \<in> set es. storable entry \<Longrightarrow>
   drop 1 (split_on (CHR 0x0A) (header @ concat (map entry_line es))) = map entry_text es"
proof -
  assume ok: "\<forall>entry \<in> set es. storable entry"
  let ?title = "''FoodType,Weight,Timestamp,Confidence,MealPeriod,ImageFilename''"
  have "CHR 0x0A \<notin> set ?title"
    by simp
  then have "split_on (CHR 0x0A) (?title @ CHR 0x0A # concat (map entry_line es)) =
      ?title # split_on (CHR 0x0A) (concat (map entry_line es))"
    by (rule split_on_delimited)
  then show ?thesis
    using split_lines_entries [OF ok] by (simp add: header_def)
qed

lemma load_lines_entries:
  "\<forall>entry \<in> set es. storable entry \<Longrightarrow> load_lines (map entry_text es) acc = (acc @ es, True)"
  by (induction es arbitrary: acc) (simp_all add: parse_entry_text)

text \<open>
  C6 (as amended). When every entry of the ledger is storable (its texts hold no comma
  and no line feed, its weight and confidence are read back from the six significant
  digits they are written with) and the file can be written, the database is saved, and
  a database with its mutex free that loads the saved file holds the same entries in the
  same order, with its dirty flag set.
\<close>

theorem saveToFile_loadFromFile_storable:
  assumes "\<not> m_databaseMutex db" and "canWrite disk"
    and "\<forall>entry \<in> set (m_entries db). storable entry"
    and "\<not> m_databaseMutex db2"
  shows "\<exists>disk'. saveToFile db disk = (Inr True, db, disk') \<and>
           fileText disk' = Some (header @ concat (map entry_line (m_entries db))) \<and>
           loadFromFile db2 disk' =
             (Inr True, db2\<lparr>m_entries := m_entries db, m_statisticsDirty := True\<rparr>)"
proof -
  let ?text = "header @ concat (map entry_line (m_entries db))"
  let ?disk = "disk\<lparr>fileText := Some ?text\<rparr>"
  have save: "saveToFile db disk = (Inr True, db, ?disk)"
    using assms(1,2) by (simp add: saveToFile_def)
  have "load_lines (drop 1 (split_on (CHR 0x0A) ?text)) [] = (m_entries db, True)"
    using assms(3) split_lines_file [of "m_entries db"] by (simp add: load_lines_entries)
  then have "loadFromFile db2 ?disk =
      (Inr True, db2\<lparr>m_entries := m_entries db, m_statisticsDirty := True\<rparr>)"
    using assms(4) by (simp add: loadFromFile_def unlock_def)
  with save show ?thesis
    by simp
qed

lemma storable_apple_entry: "storable apple_entry"
  by (simp add: storable_def apple_entry_def float_out_10 float_out_09 stof_10 stof_09)

theorem saveToFile_loadFromFile_storable_witness:
  "\<not> m_databaseMutex (fresh_database\<lparr>m_entries := [apple_entry]\<rparr>) \<and> canWrite no_file \<and>
   storable apple_entry \<and> \<not> m_databaseMutex fresh_database \<and>
   (\<exists>disk'. saveToFile (fresh_database\<lparr>m_entries := [apple_entry]\<rparr>) no_file =
               (Inr True, fresh_database\<lparr>m_entries := [apple_entry]\<rparr>, disk') \<and>
            fileText disk' =
              Some (header @ ''apple,10,2024-03-11 08:15:00,0.9,Breakfast,'' @ [CHR 0x0A]) \<and>
            loadFromFile fresh_database disk' =
              (Inr True, fresh_database\<lparr>m_entries := [apple_entry]\<rparr>))"
proof -
  let ?db = "fresh_database\<lparr>m_entries := [apple_entry]\<rparr>"
  have free: "\<not> m_databaseMutex ?db" and free2: "\<not> m_databaseMutex fresh_database"
    by (simp_all add: fresh_database_def)
  have writable: "canWrite no_file"
    by (simp add: no_file_def)
  have ok: "\<forall>entry \<in> set (m_entries ?db). storable entry"
    by (simp add: storable_apple_entry)
  have line: "entry_line apple_entry = ''apple,10,2024-03-11 08:15:00,0.9,Breakfast,'' @ [CHR 0x0A]"
    by (simp add: entry_line_def entry_text_def apple_entry_def float_out_10 float_out_09)
  have same: "fresh_database\<lparr>m_entries := [apple_entry], m_statisticsDirty := True\<rparr> = ?db"
    by (simp add: fresh_database_def)
  from saveToFile_loadFromFile_storable [OF free writable ok free2]
  show ?thesis
    using free free2 writable storable_apple_entry by (simp add: line same)
qed

text \<open>
  C6 as stated fails: the ledger of one entry whose food type is \<open>mac,cheese\<close> is saved,
  and loading the saved file fails and leaves an empty ledger. The comma of the food type
  is read as the end of a field, and the text \<open>cheese\<close> is not a weight.
\<close>

theorem saveToFile_loadFromFile_comma_counterexample:
  "saveToFile (fresh_database\<lparr>m_entries := [comma_entry]\<rparr>) no_file =
     (Inr True, fresh_database\<lparr>m_entries := [comma_entry]\<rparr>,
      \<lparr>fileText = Some (header @ ''mac,cheese,0,2024-03-11 12:00:00,0,Lunch,'' @ [CHR 0x0A]),
       canWrite = True\<rparr>) \<and>
   loadFromFile fresh_database
     \<lparr>fileText = Some (header @ ''mac,cheese,0,2024-03-11 12:00:00,0,Lunch,'' @ [CHR 0x0A]),
      canWrite = True\<rparr> =
     (Inr False, fresh_database)"
proof -
  have save: "saveToFile (fresh_database\<lparr>m_entries := [comma_entry]\<rparr>) no_file =
     (Inr True, fresh_database\<lparr>m_entries := [comma_entry]\<rparr>,
      \<lparr>fileText = Some (header @ ''mac,cheese,0,2024-03-11 12:00:00,0,Lunch,'' @ [CHR 0x0A]),
       canWrite = True\<rparr>)"
    by (simp add: saveToFile_def lock_def unlock_def fresh_database_def no_file_def entry_line_def
        entry_text_def comma_entry_def float_out_0)
  have line: "parse_line ''mac,cheese,0,2024-03-11 12:00:00,0,Lunch,'' = None"
    by (simp add: parse_line_def assign_field_def stof_cheese upt_rec)
  have loaded: "load_lines (drop 1 (split_on (CHR 0x0A)
      (header @ ''mac,cheese,0,2024-03-11 12:00:00,0,Lunch,'' @ [CHR 0x0A]))) [] = ([], False)"
    by (simp add: header_def line)
  have "loadFromFile fresh_database
     \<lparr>fileText = Some (header @ ''mac,cheese,0,2024-03-11 12:00:00,0,Lunch,'' @ [CHR 0x0A]),
      canWrite = True\<rparr> =
     (Inr False, fresh_database)"
    using loaded by (simp add: loadFromFile_def lock_def unlock_def fresh_database_def)
  with save show ?thesis
    by simp
qed

end
